theory Spec2Isabelle
  imports Complex_Main "HOL-Library.Char_ord" "HOL-Library.List_Lexorder"
begin

section \<open>Common values\<close>

text \<open>
  The Python exceptions that the modelled code can raise.  A function that can raise
  returns \<open>error + 'a\<close>, with \<open>Inl\<close> carrying the exception.
\<close>

datatype error = KeyError | ValueError | TypeError | IndexError | ZeroDivisionError
  | NotFittedError

text \<open>
  A float64 value: a finite number, an infinity or NaN.  Finite arithmetic is exact; what
  is modelled of IEEE 754 is the behaviour at the special values (division by zero,
  infinities, NaN), which is what the code relies on.  The sign of a zero is not
  modelled: a zero divisor counts as positive.
\<close>

datatype fnum = Fin real | PInf | NInf | NaN

fun f_neg :: "fnum \<Rightarrow> fnum" where
  "f_neg (Fin a) = Fin (- a)"
| "f_neg PInf = NInf"
| "f_neg NInf = PInf"
| "f_neg NaN = NaN"

fun f_add :: "fnum \<Rightarrow> fnum \<Rightarrow> fnum" where
  "f_add (Fin a) (Fin b) = Fin (a + b)"
| "f_add NaN y = NaN"
| "f_add x NaN = NaN"
| "f_add PInf NInf = NaN"
| "f_add NInf PInf = NaN"
| "f_add PInf y = PInf"
| "f_add NInf y = NInf"
| "f_add x PInf = PInf"
| "f_add x NInf = NInf"

definition f_sub :: "fnum \<Rightarrow> fnum \<Rightarrow> fnum" where
  "f_sub x y = f_add x (f_neg y)"

fun f_mul :: "fnum \<Rightarrow> fnum \<Rightarrow> fnum" where
  "f_mul (Fin a) (Fin b) = Fin (a * b)"
| "f_mul NaN y = NaN"
| "f_mul x NaN = NaN"
| "f_mul (Fin a) PInf = (if a = 0 then NaN else if 0 < a then PInf else NInf)"
| "f_mul (Fin a) NInf = (if a = 0 then NaN else if 0 < a then NInf else PInf)"
| "f_mul PInf (Fin b) = (if b = 0 then NaN else if 0 < b then PInf else NInf)"
| "f_mul NInf (Fin b) = (if b = 0 then NaN else if 0 < b then NInf else PInf)"
| "f_mul PInf PInf = PInf"
| "f_mul PInf NInf = NInf"
| "f_mul NInf PInf = NInf"
| "f_mul NInf NInf = PInf"

text \<open>
  Float division as numpy performs it on arrays: a zero divisor raises nothing and gives
  an infinity, or NaN for 0/0.
\<close>

fun f_div :: "fnum \<Rightarrow> fnum \<Rightarrow> fnum" where
  "f_div (Fin a) (Fin b) =
     (if b \<noteq> 0 then Fin (a / b)
      else if a = 0 then NaN
      else if 0 < a then PInf else NInf)"
| "f_div NaN y = NaN"
| "f_div x NaN = NaN"
| "f_div (Fin a) PInf = Fin 0"
| "f_div (Fin a) NInf = Fin 0"
| "f_div PInf (Fin b) = (if 0 \<le> b then PInf else NInf)"
| "f_div NInf (Fin b) = (if 0 \<le> b then NInf else PInf)"
| "f_div PInf PInf = NaN"
| "f_div PInf NInf = NaN"
| "f_div NInf PInf = NaN"
| "f_div NInf NInf = NaN"

fun f_sqrt :: "fnum \<Rightarrow> fnum" where
  "f_sqrt (Fin a) = (if a < 0 then NaN else Fin (sqrt a))"
| "f_sqrt PInf = PInf"
| "f_sqrt NInf = NaN"
| "f_sqrt NaN = NaN"

text \<open>Comparisons: every comparison with NaN is false.\<close>

fun f_lt :: "fnum \<Rightarrow> fnum \<Rightarrow> bool" where
  "f_lt (Fin a) (Fin b) = (a < b)"
| "f_lt NaN y = False"
| "f_lt x NaN = False"
| "f_lt NInf NInf = False"
| "f_lt NInf y = True"
| "f_lt PInf y = False"
| "f_lt (Fin a) PInf = True"
| "f_lt (Fin a) NInf = False"

definition f_gt :: "fnum \<Rightarrow> fnum \<Rightarrow> bool" where
  "f_gt x y = f_lt y x"

fun fsum :: "fnum list \<Rightarrow> fnum" where
  "fsum [] = Fin 0"
| "fsum (x # xs) = f_add x (fsum xs)"


section \<open>Model registry (src/src/model_manager.py)\<close>

text \<open>
  One entry of \<open>self.metadata\<close> as \<open>save_model\<close> writes it (lines 44-54); the
  fields that \<open>get_best_model\<close> and \<open>get_storage_usage\<close> read.  A metric score is a
  Python number (app.py line 873 keeps the values that are \<open>int\<close> or \<open>float\<close>), held
  here as a float: it can be an infinity or NaN, which the JSON file of the registry
  keeps.  The metadata dictionary is an association list in insertion order, which is the
  order in which \<open>self.metadata.items()\<close> iterates.
\<close>

record model_record =
  model_name :: string
  model_type :: string
  model_path :: string
  performance_metrics :: "(string \<times> fnum) list"

type_synonym metadata = "(string \<times> model_record) list"










text \<open>
  The file system as \<open>get_storage_usage\<close> sees it: the size in bytes of every path that
  exists (\<open>Path.exists\<close> and \<open>Path.stat().st_size\<close>).
\<close>

type_synonym filesystem = "string \<Rightarrow> nat option"

record storage_usage =
  total_size_mb :: real
  model_count :: nat
  avg_size_mb :: real

text \<open>Python's true division raises on a zero divisor.\<close>

definition py_truediv :: "real \<Rightarrow> real \<Rightarrow> error + real" where
  "py_truediv a b = (if b = 0 then Inl ZeroDivisionError else Inr (a / b))"

text \<open>
  \<open>round(x, 2)\<close>: the nearest multiple of 1/100, a tie going to the even one.  The value
  is taken as an exact number; the binary representation of a float is not modelled.
\<close>

definition py_round2 :: "real \<Rightarrow> real" where
  "py_round2 x =
     (let y = x * 100; f = \<lfloor>y\<rfloor>; d = y - of_int f
      in (if d < 1 / 2 then of_int f
          else if 1 / 2 < d then of_int (f + 1)
          else if even f then of_int f
          else of_int (f + 1)) / 100)"

text \<open>
  The loop of \<open>get_storage_usage\<close> (lines 223-227) over the variables
  \<open>total_size\<close> and \<open>model_count\<close>.
\<close>

fun storage_loop :: "filesystem \<Rightarrow> metadata \<Rightarrow> nat \<times> nat \<Rightarrow> nat \<times> nat" where
  "storage_loop fs [] (total_size, n_models) = (total_size, n_models)"
| "storage_loop fs ((model_id, r) # rest) (total_size, n_models) =
     (case fs (model_path r) of
        None \<Rightarrow> storage_loop fs rest (total_size, n_models)
      | Some st_size \<Rightarrow> storage_loop fs rest (total_size + st_size, n_models + 1))"

text \<open>
  \<open>get_storage_usage\<close> (lines 218-233).  The returned dictionary evaluates
  \<open>total_size / (1024 * 1024)\<close> twice; every division can raise in Python.
\<close>

definition get_storage_usage :: "filesystem \<Rightarrow> metadata \<Rightarrow> error + storage_usage" where
  "get_storage_usage fs md =
     (case storage_loop fs md (0, 0) of
        (total_size, n_models) \<Rightarrow>
          (case py_truediv (real total_size) (1024 * 1024) of
             Inl e \<Rightarrow> Inl e
           | Inr mb \<Rightarrow>
               (case py_truediv (real total_size) (1024 * 1024) of
                  Inl e \<Rightarrow> Inl e
                | Inr mb2 \<Rightarrow>
                    (case py_truediv mb2 (real (max n_models 1)) of
                       Inl e \<Rightarrow> Inl e
                     | Inr avg \<Rightarrow>
                         Inr \<lparr>total_size_mb = py_round2 mb,
                              model_count = n_models,
                              avg_size_mb = py_round2 avg\<rparr>))))"

text \<open>
  The metadata entries whose artifact file exists, and the bytes they hold together, in
  the words of the specification.
\<close>

definition existing :: "filesystem \<Rightarrow> metadata \<Rightarrow> metadata" where
  "existing fs md = filter (\<lambda>(model_id, r). fs (model_path r) \<noteq> None) md"

definition existing_bytes :: "filesystem \<Rightarrow> metadata \<Rightarrow> nat" where
  "existing_bytes fs md =
     sum_list (map (\<lambda>(model_id, r). the (fs (model_path r))) (existing fs md))"

text \<open>
  A registry of six records, three of each task type, for the examples: RMSE values
  0.5, 0.2 and 0.9, accuracies 0.8, 0.95 and 0.7, and a metric \<open>mae\<close>, written in
  small letters, with the values 0.4, 0.3 and 0.1.
\<close>

definition example_registry :: metadata where
  "example_registry =
     [(''ridge_20240101_090000'',
         \<lparr>model_name = ''ridge'', model_type = ''regression'',
          model_path = ''models/ridge_20240101_090000.pkl'',
          performance_metrics =
            [(''RMSE'', Fin (5 / 10)), (''R2'', Fin (6 / 10)), (''mae'', Fin (4 / 10))]\<rparr>),
      (''lr_20240101_090500'',
         \<lparr>model_name = ''lr'', model_type = ''classification'',
          model_path = ''models/lr_20240101_090500.pkl'',
          performance_metrics = [(''Accuracy'', Fin (8 / 10))]\<rparr>),
      (''gbr_20240102_100000'',
         \<lparr>model_name = ''gbr'', model_type = ''regression'',
          model_path = ''models/gbr_20240102_100000.pkl'',
          performance_metrics =
            [(''RMSE'', Fin (2 / 10)), (''R2'', Fin (9 / 10)), (''mae'', Fin (3 / 10))]\<rparr>),
      (''rf_20240102_110000'',
         \<lparr>model_name = ''rf'', model_type = ''classification'',
          model_path = ''models/rf_20240102_110000.pkl'',
          performance_metrics = [(''Accuracy'', Fin (95 / 100))]\<rparr>),
      (''knn_20240103_120000'',
         \<lparr>model_name = ''knn'', model_type = ''regression'',
          model_path = ''models/knn_20240103_120000.pkl'',
          performance_metrics =
            [(''RMSE'', Fin (9 / 10)), (''R2'', Fin (1 / 10)), (''mae'', Fin (1 / 10))]\<rparr>),
      (''nb_20240103_130000'',
         \<lparr>model_name = ''nb'', model_type = ''classification'',
          model_path = ''models/nb_20240103_130000.pkl'',
          performance_metrics = [(''Accuracy'', Fin (7 / 10))]\<rparr>)]"


text \<open>A model directory in which only two of the six artifact files are left.\<close>

definition example_files :: filesystem where
  "example_files =
     [''models/gbr_20240102_100000.pkl'' \<mapsto> 1048576,
      ''models/rf_20240102_110000.pkl'' \<mapsto> 3145728]"

section \<open>Tables (pandas data frames)\<close>

text \<open>
  A timestamp, reduced to its calendar date (the time of day plays no part in the
  calendar features that the code extracts).
\<close>

datatype timestamp = Timestamp (ts_year: int) (ts_month: int) (ts_day: int)

text \<open>
  An entry of a column of dtype \<open>object\<close> that holds strings: a string, or a missing
  value, which pandas holds either as \<open>None\<close> or as the float NaN (\<open>read_csv\<close> gives
  NaN).  Both count as missing; they differ under \<open>astype(str)\<close>.
\<close>

datatype pyobj = Str string | PyNone | PyNaN

fun is_missing :: "pyobj \<Rightarrow> bool" where
  "is_missing (Str s) = False"
| "is_missing PyNone = True"
| "is_missing PyNaN = True"

fun the_str :: "pyobj \<Rightarrow> string" where
  "the_str (Str s) = s"
| "the_str PyNone = ''None''"
| "the_str PyNaN = ''nan''"

text \<open>
  The data of a column, by dtype: \<open>int64\<close> (no missing values), \<open>float64\<close> (missing is
  NaN), \<open>object\<close> holding strings and \<open>datetime64\<close> (missing is \<open>NaT\<close>, here
  \<open>None\<close>).  A table is the ordered list of its named columns; the row index is
  positional.
\<close>

datatype coldata =
    IntCol "int list"
  | FloatCol "fnum list"
  | ObjCol "pyobj list"
  | TimeCol "timestamp option list"

type_synonym table = "(string \<times> coldata) list"

fun col_len :: "coldata \<Rightarrow> nat" where
  "col_len (IntCol xs) = length xs"
| "col_len (FloatCol xs) = length xs"
| "col_len (ObjCol xs) = length xs"
| "col_len (TimeCol xs) = length xs"

text \<open>\<open>Series.isnull()\<close>, as a list of booleans.\<close>

fun isnull :: "coldata \<Rightarrow> bool list" where
  "isnull (IntCol xs) = map (\<lambda>x. False) xs"
| "isnull (FloatCol xs) = map (\<lambda>x. x = NaN) xs"
| "isnull (ObjCol xs) = map is_missing xs"
| "isnull (TimeCol xs) = map (\<lambda>x. x = None) xs"

definition has_null :: "coldata \<Rightarrow> bool" where
  "has_null d = (True \<in> set (isnull d))"

text \<open>The dtype tests of the code.\<close>

fun is_number :: "coldata \<Rightarrow> bool" where
  "is_number (IntCol xs) = True"
| "is_number (FloatCol xs) = True"
| "is_number d = False"

fun is_object :: "coldata \<Rightarrow> bool" where
  "is_object (ObjCol xs) = True"
| "is_object d = False"

fun is_datetime :: "coldata \<Rightarrow> bool" where
  "is_datetime (TimeCol xs) = True"
| "is_datetime d = False"

text \<open>Keeping the rows that a boolean selection marks.\<close>

definition keep :: "bool list \<Rightarrow> 'a list \<Rightarrow> 'a list" where
  "keep sel xs = map snd (filter fst (zip sel xs))"

fun keep_rows :: "bool list \<Rightarrow> coldata \<Rightarrow> coldata" where
  "keep_rows sel (IntCol xs) = IntCol (keep sel xs)"
| "keep_rows sel (FloatCol xs) = FloatCol (keep sel xs)"
| "keep_rows sel (ObjCol xs) = ObjCol (keep sel xs)"
| "keep_rows sel (TimeCol xs) = TimeCol (keep sel xs)"

definition nrows :: "table \<Rightarrow> nat" where
  "nrows t = (case t of [] \<Rightarrow> 0 | (c, d) # rest \<Rightarrow> col_len d)"

definition columns :: "table \<Rightarrow> string list" where
  "columns t = map fst t"

text \<open>\<open>df[name]\<close>: a missing column raises \<open>KeyError\<close>.\<close>

definition get_column :: "table \<Rightarrow> string \<Rightarrow> error + coldata" where
  "get_column t c = (case map_of t c of None \<Rightarrow> Inl KeyError | Some d \<Rightarrow> Inr d)"

text \<open>
  \<open>df[name] = series\<close>: an existing column is replaced where it stands, a new one is
  appended.
\<close>

fun set_column :: "table \<Rightarrow> string \<Rightarrow> coldata \<Rightarrow> table" where
  "set_column [] c d = [(c, d)]"
| "set_column ((c', d') # rest) c d =
     (if c' = c then (c, d) # rest else (c', d') # set_column rest c d)"

text \<open>\<open>df.drop(columns=names, errors='ignore')\<close>.\<close>

definition drop_columns :: "table \<Rightarrow> string list \<Rightarrow> table" where
  "drop_columns t names = filter (\<lambda>(c, d). c \<notin> set names) t"

text \<open>
  The rows without a missing value in any of the given columns, as a selection over
  \<open>n\<close> rows.
\<close>

definition complete_rows :: "nat \<Rightarrow> coldata list \<Rightarrow> bool list" where
  "complete_rows n ds = map (\<lambda>i. list_all (\<lambda>d. \<not> (isnull d ! i)) ds) [0..<n]"

text \<open>\<open>df.dropna()\<close> and \<open>df.dropna(subset=[name])\<close>.\<close>

definition dropna :: "table \<Rightarrow> table" where
  "dropna t = map (\<lambda>(c, d). (c, keep_rows (complete_rows (nrows t) (map snd t)) d)) t"

definition dropna_subset :: "table \<Rightarrow> string \<Rightarrow> error + table" where
  "dropna_subset t c =
     (case get_column t c of
        Inl e \<Rightarrow> Inl e
      | Inr d \<Rightarrow> Inr (map (\<lambda>(c', d'). (c', keep_rows (complete_rows (nrows t) [d]) d')) t))"

text \<open>Sequencing of computations that can raise.\<close>

definition bind_e :: "error + 'a \<Rightarrow> ('a \<Rightarrow> error + 'b) \<Rightarrow> error + 'b" where
  "bind_e m f = (case m of Inl e \<Rightarrow> Inl e | Inr x \<Rightarrow> f x)"

text \<open>
  The values of a numeric column as floats; arithmetic on a column of strings or of
  timestamps raises.
\<close>

fun as_floats :: "coldata \<Rightarrow> error + fnum list" where
  "as_floats (IntCol xs) = Inr (map (\<lambda>x. Fin (real_of_int x)) xs)"
| "as_floats (FloatCol xs) = Inr xs"
| "as_floats (ObjCol xs) = Inl TypeError"
| "as_floats (TimeCol xs) = Inl TypeError"

definition get_floats :: "table \<Rightarrow> string \<Rightarrow> error + fnum list" where
  "get_floats t c = bind_e (get_column t c) as_floats"

subsection \<open>Series operations\<close>

text \<open>\<open>Series.shift(-n)\<close>: row \<open>i\<close> receives the value of row \<open>i + n\<close>, the last rows NaN.\<close>

definition shift_up :: "nat \<Rightarrow> fnum list \<Rightarrow> fnum list" where
  "shift_up n xs = drop n xs @ replicate (min n (length xs)) NaN"

text \<open>\<open>Series.diff()\<close>: the difference to the previous row, NaN in the first row.\<close>

definition diff :: "fnum list \<Rightarrow> fnum list" where
  "diff xs = (case xs of [] \<Rightarrow> [] | y # ys \<Rightarrow> NaN # map2 f_sub ys (butlast xs))"

text \<open>
  \<open>Series.rolling(window=w)\<close>: for every row the window of the \<open>w\<close> rows that end
  there, and no window for the first \<open>w - 1\<close> rows.  With the default \<open>min_periods\<close> a
  window that holds a NaN gives NaN.
\<close>

definition windows :: "nat \<Rightarrow> 'a list \<Rightarrow> 'a list option list" where
  "windows w xs =
     map (\<lambda>i. if i + 1 < w then None else Some (take w (drop (i + 1 - w) xs)))
       [0..<length xs]"

definition window_mean :: "nat \<Rightarrow> fnum list option \<Rightarrow> fnum" where
  "window_mean w win =
     (case win of
        None \<Rightarrow> NaN
      | Some ys \<Rightarrow> if NaN \<in> set ys then NaN else f_div (fsum ys) (Fin (real w)))"

definition rolling_mean :: "nat \<Rightarrow> fnum list \<Rightarrow> fnum list" where
  "rolling_mean w xs = map (window_mean w) (windows w xs)"

text \<open>The sample standard deviation (\<open>ddof=1\<close>) of a window.\<close>

definition window_std :: "nat \<Rightarrow> fnum list option \<Rightarrow> fnum" where
  "window_std w win =
     (case win of
        None \<Rightarrow> NaN
      | Some ys \<Rightarrow>
          if NaN \<in> set ys then NaN
          else
            (let m = f_div (fsum ys) (Fin (real w));
                 ss = fsum (map (\<lambda>y. f_mul (f_sub y m) (f_sub y m)) ys)
             in f_sqrt (f_div ss (Fin (real w - 1)))))"

definition rolling_std :: "nat \<Rightarrow> fnum list \<Rightarrow> fnum list" where
  "rolling_std w xs = map (window_std w) (windows w xs)"

text \<open>
  \<open>Series.ewm(span=s).mean()\<close> with the defaults \<open>adjust=True\<close>, \<open>ignore_na=False\<close>:
  the average of the values seen so far, a value \<open>k\<close> rows back weighing
  \<open>(1 - alpha)^k\<close> with \<open>alpha = 2 / (s + 1)\<close>; NaN values are skipped, and the
  result is NaN before the first value.  The accumulators are the weighted sum, the sum
  of the weights, and whether a value has been seen.
\<close>

fun ewm_loop :: "real \<Rightarrow> fnum \<times> real \<times> bool \<Rightarrow> fnum list \<Rightarrow> fnum list" where
  "ewm_loop q (num, den, seen) [] = []"
| "ewm_loop q (num, den, seen) (x # xs) =
     (if x = NaN
      then (if seen then f_div (f_mul (Fin q) num) (Fin (q * den)) else NaN)
             # ewm_loop q (f_mul (Fin q) num, q * den, seen) xs
      else f_div (f_add (f_mul (Fin q) num) x) (Fin (q * den + 1))
             # ewm_loop q (f_add (f_mul (Fin q) num) x, q * den + 1, True) xs)"

definition ewm_mean :: "nat \<Rightarrow> fnum list \<Rightarrow> fnum list" where
  "ewm_mean s xs = ewm_loop (1 - 2 / (real s + 1)) (Fin 0, 0, False) xs"

text \<open>\<open>Series.ffill()\<close>, and \<open>Series.pct_change()\<close> with its default \<open>fill_method='pad'\<close>.\<close>

fun ffill_from :: "fnum \<Rightarrow> fnum list \<Rightarrow> fnum list" where
  "ffill_from prev [] = []"
| "ffill_from prev (x # xs) =
     (if x = NaN then prev # ffill_from prev xs else x # ffill_from x xs)"

definition pct_change :: "fnum list \<Rightarrow> fnum list" where
  "pct_change xs =
     (let ys = ffill_from NaN xs
      in case ys of
           [] \<Rightarrow> []
         | z # zs \<Rightarrow> NaN # map2 (\<lambda>a b. f_sub (f_div a b) (Fin 1)) zs (butlast ys))"

section \<open>Financial feature builder (src/src/financial_data.py)\<close>

text \<open>
  The body of each method is a sequence of statements on the data frame \<open>df\<close>, each of
  which can raise.  The methods wrap their body in \<open>try\<close> / \<open>except Exception\<close> and
  return the argument \<open>data\<close> when anything was raised.
\<close>

type_synonym stmt = "table \<Rightarrow> error + table"

fun run_stmts :: "stmt list \<Rightarrow> table \<Rightarrow> error + table" where
  "run_stmts [] df = Inr df"
| "run_stmts (s # ss) df = bind_e (s df) (run_stmts ss)"

text \<open>\<open>df[c] = expr\<close> for a float and for an integer result.\<close>

definition assign_floats :: "string \<Rightarrow> (table \<Rightarrow> error + fnum list) \<Rightarrow> stmt" where
  "assign_floats c expr df = bind_e (expr df) (\<lambda>xs. Inr (set_column df c (FloatCol xs)))"

definition assign_ints :: "string \<Rightarrow> (table \<Rightarrow> error + int list) \<Rightarrow> stmt" where
  "assign_ints c expr df = bind_e (expr df) (\<lambda>xs. Inr (set_column df c (IntCol xs)))"

text \<open>An operation on one column, and an elementwise operation on two columns of \<open>df\<close>.\<close>

definition on_column :: "string \<Rightarrow> (fnum list \<Rightarrow> 'a) \<Rightarrow> table \<Rightarrow> error + 'a" where
  "on_column c f df = bind_e (get_floats df c) (\<lambda>xs. Inr (f xs))"

definition on_columns ::
  "string \<Rightarrow> string \<Rightarrow> (fnum list \<Rightarrow> fnum list \<Rightarrow> 'a) \<Rightarrow> table \<Rightarrow> error + 'a" where
  "on_columns c1 c2 f df =
     bind_e (get_floats df c1) (\<lambda>xs. bind_e (get_floats df c2) (\<lambda>ys. Inr (f xs ys)))"

text \<open>
  The RSI of lines 97-101, from the column \<open>Close\<close>:
  \<^verbatim>\<open>delta = df['Close'].diff()
gain = (delta.where(delta > 0, 0)).rolling(window=14).mean()
loss = (-delta.where(delta < 0, 0)).rolling(window=14).mean()
rs = gain / loss
df['RSI'] = 100 - (100 / (1 + rs))\<close>
\<close>

definition rsi_gain :: "fnum list \<Rightarrow> fnum list" where
  "rsi_gain close =
     rolling_mean 14 (map (\<lambda>d. if f_gt d (Fin 0) then d else Fin 0) (diff close))"

definition rsi_loss :: "fnum list \<Rightarrow> fnum list" where
  "rsi_loss close =
     rolling_mean 14 (map f_neg (map (\<lambda>d. if f_lt d (Fin 0) then d else Fin 0) (diff close)))"

definition rsi :: "fnum list \<Rightarrow> fnum list" where
  "rsi close =
     (let rs = map2 f_div (rsi_gain close) (rsi_loss close)
      in map (\<lambda>r. f_sub (Fin 100) (f_div (Fin 100) (f_add (Fin 1) r))) rs)"

text \<open>
  The statements of \<open>add_technical_indicators\<close> (lines 82-123), in their order.  The
  local \<open>bb_std\<close> of line 105 is written out where it is used.
\<close>

definition add_technical_indicators_stmts :: "stmt list" where
  "add_technical_indicators_stmts =
     [assign_floats ''SMA_20'' (on_column ''Close'' (rolling_mean 20)),
      assign_floats ''SMA_50'' (on_column ''Close'' (rolling_mean 50)),
      assign_floats ''SMA_200'' (on_column ''Close'' (rolling_mean 200)),
      assign_floats ''EMA_12'' (on_column ''Close'' (ewm_mean 12)),
      assign_floats ''EMA_26'' (on_column ''Close'' (ewm_mean 26)),
      assign_floats ''MACD'' (on_columns ''EMA_12'' ''EMA_26'' (map2 f_sub)),
      assign_floats ''MACD_Signal'' (on_column ''MACD'' (ewm_mean 9)),
      assign_floats ''MACD_Histogram'' (on_columns ''MACD'' ''MACD_Signal'' (map2 f_sub)),
      assign_floats ''RSI'' (on_column ''Close'' rsi),
      assign_floats ''BB_Middle'' (on_column ''Close'' (rolling_mean 20)),
      assign_floats ''BB_Upper'' (on_columns ''BB_Middle'' ''Close''
         (\<lambda>mid close. map2 f_add mid (map (\<lambda>s. f_mul s (Fin 2)) (rolling_std 20 close)))),
      assign_floats ''BB_Lower'' (on_columns ''BB_Middle'' ''Close''
         (\<lambda>mid close. map2 f_sub mid (map (\<lambda>s. f_mul s (Fin 2)) (rolling_std 20 close)))),
      assign_floats ''Volume_SMA'' (on_column ''Volume'' (rolling_mean 20)),
      assign_floats ''Volume_Ratio'' (on_columns ''Volume'' ''Volume_SMA'' (map2 f_div)),
      assign_floats ''Daily_Return'' (on_column ''Close'' pct_change),
      assign_floats ''Price_Change'' (on_column ''Close'' diff),
      assign_floats ''Price_Change_Pct'' (on_columns ''Close'' ''Open''
         (\<lambda>close opn. map (\<lambda>x. f_mul x (Fin 100)) (map2 f_div (map2 f_sub close opn) opn))),
      assign_floats ''Volatility'' (on_column ''Daily_Return'' (rolling_std 20)),
      assign_floats ''HL_Spread'' (on_columns ''High'' ''Low'' (map2 f_sub)),
      assign_floats ''HL_Spread_Pct'' (\<lambda>df.
         bind_e (on_columns ''High'' ''Low'' (map2 f_sub) df) (\<lambda>hl.
         bind_e (get_floats df ''Close'') (\<lambda>close.
         Inr (map (\<lambda>x. f_mul x (Fin 100)) (map2 f_div hl close)))))]"

definition add_technical_indicators :: "table \<Rightarrow> table" where
  "add_technical_indicators data =
     (case run_stmts add_technical_indicators_stmts data of
        Inl e \<Rightarrow> data
      | Inr df \<Rightarrow> df)"

text \<open>
  The target statement of \<open>create_classification_target\<close> for each method (lines
  143-163).  \<open>periods\<close> is a natural number: the look-ahead of the specification.  An
  unknown method assigns nothing.
\<close>

definition price_direction_target :: "nat \<Rightarrow> fnum list \<Rightarrow> int list" where
  "price_direction_target periods close =
     map (\<lambda>b. if b then 1 else 0) (map2 f_gt (shift_up periods close) close)"

definition price_movement_target :: "nat \<Rightarrow> fnum list \<Rightarrow> int list" where
  "price_movement_target periods close =
     (let future_return = map2 f_div (map2 f_sub (shift_up periods close) close) close
      in map (\<lambda>r. if f_gt r (Fin (1 / 100)) then 1
                  else if f_lt r (Fin (- (1 / 100))) then - 1 else 0) future_return)"

definition volatility_breakout_target :: "nat \<Rightarrow> table \<Rightarrow> error + int list" where
  "volatility_breakout_target periods df =
     bind_e (on_column ''High'' (shift_up periods) df) (\<lambda>future_high.
     bind_e (on_column ''Low'' (shift_up periods) df) (\<lambda>future_low.
     bind_e (get_floats df ''BB_Upper'') (\<lambda>bb_upper.
     bind_e (get_floats df ''BB_Lower'') (\<lambda>bb_lower.
       Inr (map2 (\<lambda>up down. if up then 1 else if down then - 1 else 0)
              (map2 f_gt future_high bb_upper) (map2 f_lt future_low bb_lower))))))"

definition classification_target_stmts :: "string \<Rightarrow> nat \<Rightarrow> stmt list" where
  "classification_target_stmts method periods =
     (if method = ''price_direction''
      then [assign_ints ''Target'' (on_column ''Close'' (price_direction_target periods))]
      else if method = ''price_movement''
      then [assign_ints ''Target'' (on_column ''Close'' (price_movement_target periods))]
      else if method = ''volatility_breakout''
      then [assign_ints ''Target'' (volatility_breakout_target periods)]
      else [])"

text \<open>
  \<open>create_classification_target\<close> (lines 131-172): for \<open>volatility_breakout\<close> the
  indicators are added first (line 155); then the target statement, then
  \<open>df.dropna(subset=['Target'])\<close>.
\<close>

definition create_classification_target :: "table \<Rightarrow> string \<Rightarrow> nat \<Rightarrow> table" where
  "create_classification_target data method periods =
     (case run_stmts (classification_target_stmts method periods
                       @ [\<lambda>df. dropna_subset df ''Target''])
             (if method = ''volatility_breakout'' then add_technical_indicators data
              else data) of
        Inl e \<Rightarrow> data
      | Inr df \<Rightarrow> df)"

text \<open>\<open>create_regression_target\<close> (lines 174-202).\<close>

definition regression_target_stmts :: "string \<Rightarrow> nat \<Rightarrow> stmt list" where
  "regression_target_stmts target_type periods =
     (if target_type = ''next_close''
      then [assign_floats ''Target'' (on_column ''Close'' (shift_up periods))]
      else if target_type = ''return''
      then [assign_floats ''Target'' (on_column ''Close'' (\<lambda>close.
              map (\<lambda>x. f_mul x (Fin 100))
                (map2 f_div (map2 f_sub (shift_up periods close) close) close)))]
      else if target_type = ''volatility''
      then [assign_floats ''Target'' (on_column ''Close'' (\<lambda>close.
              shift_up periods (rolling_std periods close)))]
      else [])"

definition create_regression_target :: "table \<Rightarrow> string \<Rightarrow> nat \<Rightarrow> table" where
  "create_regression_target data target_type periods =
     (case run_stmts (regression_target_stmts target_type periods
                       @ [\<lambda>df. dropna_subset df ''Target'']) data of
        Inl e \<Rightarrow> data
      | Inr df \<Rightarrow> df)"

text \<open>
  \<open>pd.to_datetime\<close> leaves a datetime column as it is.  The parsing of strings and
  numbers into timestamps is not modelled: it is a fixed function about which nothing is
  assumed.
\<close>

definition parse_datetime :: "coldata \<Rightarrow> error + timestamp option list" where
  "parse_datetime = (SOME f. True)"

fun to_datetime :: "coldata \<Rightarrow> error + timestamp option list" where
  "to_datetime (TimeCol xs) = Inr xs"
| "to_datetime d = parse_datetime d"

text \<open>
  The calendar accessors \<open>.dt.year\<close>, \<open>.dt.month\<close>, \<open>.dt.dayofweek\<close> (Monday is 0) and
  \<open>.dt.quarter\<close>.  The day of the week comes from the number of days since 1970-01-01,
  a Thursday.  The result is an integer column, or a float column with NaN when a
  timestamp is missing.
\<close>

definition days_from_civil :: "int \<Rightarrow> int \<Rightarrow> int \<Rightarrow> int" where
  "days_from_civil y m d =
     (let y' = (if m \<le> 2 then y - 1 else y);
          era = y' div 400;
          yoe = y' - era * 400;
          doy = (153 * (if 2 < m then m - 3 else m + 9) + 2) div 5 + d - 1;
          doe = yoe * 365 + yoe div 4 - yoe div 100 + doy
      in era * 146097 + doe - 719468)"

definition dayofweek :: "timestamp \<Rightarrow> int" where
  "dayofweek t = (days_from_civil (ts_year t) (ts_month t) (ts_day t) + 3) mod 7"

definition quarter :: "timestamp \<Rightarrow> int" where
  "quarter t = (ts_month t - 1) div 3 + 1"

definition dt_field :: "(timestamp \<Rightarrow> int) \<Rightarrow> timestamp option list \<Rightarrow> coldata" where
  "dt_field f xs =
     (if None \<in> set xs
      then FloatCol (map (\<lambda>x. case x of None \<Rightarrow> NaN | Some t \<Rightarrow> Fin (real_of_int (f t))) xs)
      else IntCol (map (\<lambda>x. case x of None \<Rightarrow> 0 | Some t \<Rightarrow> f t) xs))"

definition assign_dt_field :: "string \<Rightarrow> (timestamp \<Rightarrow> int) \<Rightarrow> stmt" where
  "assign_dt_field c f df =
     bind_e (get_column df ''Date'') (\<lambda>d.
     bind_e (to_datetime d) (\<lambda>xs. Inr (set_column df c (dt_field f xs))))"

text \<open>
  \<open>prepare_ml_dataset\<close> (lines 266-316).  The calendar statements run when the frame has
  a column \<open>Date\<close> (lines 294-300); the loop of lines 303-305 collects the columns of
  dtype \<open>object\<close> other than \<open>Target\<close>.
\<close>

definition date_stmts :: "table \<Rightarrow> stmt list" where
  "date_stmts df =
     (if ''Date'' \<in> set (columns df)
      then [assign_dt_field ''Year'' ts_year,
            assign_dt_field ''Month'' ts_month,
            assign_dt_field ''DayOfWeek'' dayofweek,
            assign_dt_field ''Quarter'' quarter]
      else [])"

definition columns_to_drop :: "bool \<Rightarrow> table \<Rightarrow> string list" where
  "columns_to_drop had_date df =
     (if had_date then [''Date''] else [])
       @ map fst (filter (\<lambda>(c, d). is_object d \<and> c \<noteq> ''Target'') df)"

definition prepare_ml_dataset ::
  "table \<Rightarrow> string \<Rightarrow> string \<Rightarrow> nat \<Rightarrow> bool \<Rightarrow> table" where
  "prepare_ml_dataset data task_type target_method periods include_technical_indicators =
     (let df1 = (if include_technical_indicators then add_technical_indicators data
                 else data);
          df2 = (if task_type = ''classification''
                 then create_classification_target df1 target_method periods
                 else create_regression_target df1 target_method periods)
      in case run_stmts (date_stmts df2) df2 of
           Inl e \<Rightarrow> data
         | Inr df3 \<Rightarrow>
             dropna (drop_columns df3
               (columns_to_drop (''Date'' \<in> set (columns df2)) df3)))"

text \<open>
  A daily price series with the closes 10, 12, 11 and 15, and the same series as the data
  provider returns it for an intraday interval, where the timestamp column is called
  \<open>Datetime\<close>.
\<close>

definition example_ohlcv :: table where
  "example_ohlcv =
     [(''Open'', FloatCol [Fin 9, Fin 10, Fin 12, Fin 11]),
      (''High'', FloatCol [Fin 11, Fin 13, Fin 12, Fin 16]),
      (''Low'', FloatCol [Fin 9, Fin 10, Fin 10, Fin 11]),
      (''Close'', FloatCol [Fin 10, Fin 12, Fin 11, Fin 15]),
      (''Volume'', IntCol [100, 150, 120, 200])]"

definition example_stamps :: "timestamp option list" where
  "example_stamps =
     [Some (Timestamp 2024 1 2), Some (Timestamp 2024 1 3),
      Some (Timestamp 2024 1 4), Some (Timestamp 2024 1 5)]"

definition example_daily :: table where
  "example_daily = (''Date'', TimeCol example_stamps) # example_ohlcv"

definition example_intraday :: table where
  "example_intraday = (''Datetime'', TimeCol example_stamps) # example_ohlcv"











section \<open>Tabular preprocessor (src/src/data_preprocessing.py)\<close>

subsection \<open>Column statistics and filling\<close>

text \<open>\<open>Series.mean()\<close>: the mean of the values that are not NaN, NaN when there is none.\<close>

definition series_mean :: "fnum list \<Rightarrow> fnum" where
  "series_mean xs =
     (let ys = filter (\<lambda>x. x \<noteq> NaN) xs in f_div (fsum ys) (Fin (real (length ys))))"

text \<open>Sorting floats that are not NaN, for the median and the mode.\<close>

fun f_insert :: "fnum \<Rightarrow> fnum list \<Rightarrow> fnum list" where
  "f_insert x [] = [x]"
| "f_insert x (y # ys) = (if f_lt y x then y # f_insert x ys else x # y # ys)"

definition f_sort :: "fnum list \<Rightarrow> fnum list" where
  "f_sort xs = foldr f_insert xs []"

definition series_median :: "fnum list \<Rightarrow> fnum" where
  "series_median xs =
     (let ys = f_sort (filter (\<lambda>x. x \<noteq> NaN) xs); n = length ys
      in if n = 0 then NaN
         else if odd n then ys ! (n div 2)
         else f_div (f_add (ys ! (n div 2 - 1)) (ys ! (n div 2))) (Fin 2))"

text \<open>
  \<open>Series.mode()[0]\<close>: the most frequent value, the smallest one on a tie, taken from the
  sorted values; indexing the empty result raises.
\<close>

definition first_mode :: "'a list \<Rightarrow> error + 'a" where
  "first_mode ys =
     (case filter (\<lambda>y. count_list ys y = fold max (map (count_list ys) ys) 0) ys of
        [] \<Rightarrow> Inl KeyError
      | y # rest \<Rightarrow> Inr y)"

text \<open>\<open>Series.fillna(v)\<close> on a float column and on a column of strings.\<close>

definition fillna_floats :: "fnum \<Rightarrow> fnum list \<Rightarrow> fnum list" where
  "fillna_floats v xs = map (\<lambda>x. if x = NaN then v else x) xs"

definition fillna_strings :: "string \<Rightarrow> pyobj list \<Rightarrow> pyobj list" where
  "fillna_strings v xs = map (\<lambda>x. if is_missing x then Str v else x) xs"

text \<open>
  \<open>KNNImputer(n_neighbors=5).fit_transform\<close> on one column: a row whose only feature is
  missing has no neighbour at a defined distance and receives the mean of the column.
  Infinite values are refused, and a column without any value is dropped by the imputer,
  which makes the assignment of the result fail.
\<close>

definition knn_impute :: "fnum list \<Rightarrow> error + fnum list" where
  "knn_impute xs =
     (if PInf \<in> set xs \<or> NInf \<in> set xs then Inl ValueError
      else if filter (\<lambda>x. x \<noteq> NaN) xs = [] then Inl ValueError
      else Inr (fillna_floats (series_mean xs) xs))"

text \<open>
  Filling a datetime column that has missing timestamps (with the mode or with the string
  \<open>'Unknown'\<close>) is not modelled: its result depends on the version of pandas.  It is a
  fixed function about which nothing is assumed.
\<close>

definition impute_datetime :: "string \<Rightarrow> timestamp option list \<Rightarrow> error + coldata" where
  "impute_datetime = (SOME f. True)"

text \<open>
  One pass of the loop body of \<open>handle_missing_values\<close> (lines 43-58) for a column that
  has a missing value: \<open>d\<close> is \<open>df[col]\<close>, from which the statistic is taken, and
  \<open>dc\<close> is \<open>df_copy[col]\<close>, which is filled.  The numeric branch is that of the dtypes
  \<open>int64\<close> and \<open>float64\<close>; an unknown strategy leaves a numeric column as it is.
\<close>

fun fill_floats :: "fnum \<Rightarrow> coldata \<Rightarrow> coldata" where
  "fill_floats v (FloatCol ys) = FloatCol (fillna_floats v ys)"
| "fill_floats v dc = dc"

fun fill_strings :: "string \<Rightarrow> coldata \<Rightarrow> coldata" where
  "fill_strings v (ObjCol ys) = ObjCol (fillna_strings v ys)"
| "fill_strings v dc = dc"

definition impute_numeric :: "string \<Rightarrow> fnum list \<Rightarrow> coldata \<Rightarrow> error + coldata" where
  "impute_numeric strategy xs dc =
     (if strategy = ''mean'' then Inr (fill_floats (series_mean xs) dc)
      else if strategy = ''median'' then Inr (fill_floats (series_median xs) dc)
      else if strategy = ''mode''
      then bind_e (first_mode (f_sort (filter (\<lambda>x. x \<noteq> NaN) xs)))
             (\<lambda>v. Inr (fill_floats v dc))
      else if strategy = ''knn''
      then bind_e (as_floats dc) (\<lambda>ys. bind_e (knn_impute ys) (\<lambda>zs. Inr (FloatCol zs)))
      else Inr dc)"

fun impute_step :: "string \<Rightarrow> coldata \<Rightarrow> coldata \<Rightarrow> error + coldata" where
  "impute_step strategy (IntCol xs) dc =
     impute_numeric strategy (map (\<lambda>x. Fin (real_of_int x)) xs) dc"
| "impute_step strategy (FloatCol xs) dc = impute_numeric strategy xs dc"
| "impute_step strategy (ObjCol xs) dc =
     (if strategy = ''mode''
      then bind_e (first_mode (sort (map the_str (filter (\<lambda>x. \<not> is_missing x) xs))))
             (\<lambda>v. Inr (fill_strings v dc))
      else Inr (fill_strings ''Unknown'' dc))"
| "impute_step strategy (TimeCol xs) dc = impute_datetime strategy xs"

text \<open>
  The loop of \<open>handle_missing_values\<close> (lines 41-58) over the column names: \<open>df\<close> is the
  argument, \<open>df_copy\<close> the copy that is filled and returned.
\<close>

fun handle_missing_loop :: "table \<Rightarrow> string \<Rightarrow> string list \<Rightarrow> table \<Rightarrow> error + table" where
  "handle_missing_loop df strategy [] df_copy = Inr df_copy"
| "handle_missing_loop df strategy (col # cols) df_copy =
     bind_e (get_column df col) (\<lambda>d.
       if has_null d
       then bind_e (get_column df_copy col) (\<lambda>dc.
            bind_e (impute_step strategy d dc) (\<lambda>dc'.
              handle_missing_loop df strategy cols (set_column df_copy col dc')))
       else handle_missing_loop df strategy cols df_copy)"

definition handle_missing_values ::
  "table \<Rightarrow> string \<Rightarrow> string list option \<Rightarrow> error + table" where
  "handle_missing_values df strategy cols =
     handle_missing_loop df strategy
       (case cols of None \<Rightarrow> columns df | Some cs \<Rightarrow> cs) df"

text \<open>
  The mean of the values of a column that are not missing, in the words of the
  specification, for a column whose values are finite.
\<close>

definition present_values :: "fnum list \<Rightarrow> real list" where
  "present_values xs = concat (map (\<lambda>x. case x of Fin r \<Rightarrow> [r] | y \<Rightarrow> []) xs)"

definition all_finite :: "fnum list \<Rightarrow> bool" where
  "all_finite xs = (PInf \<notin> set xs \<and> NInf \<notin> set xs)"

text \<open>A table with a float column of mean 10 and one missing value.\<close>

definition example_missing :: table where
  "example_missing =
     [(''age'', FloatCol [Fin 8, NaN, Fin 12]),
      (''height'', FloatCol [Fin 150, Fin 160, Fin 170]),
      (''city'', ObjCol [Str ''Oslo'', PyNone, Str ''Rome'']),
      (''visits'', IntCol [1, 2, 3])]"

subsection \<open>The fitted objects of scikit-learn\<close>

text \<open>
  A \<open>LabelEncoder\<close>: its \<open>classes_\<close> once fitted, \<open>None\<close> before.  \<open>fit\<close> takes the
  distinct labels in sorted order, the missing labels last (\<open>None\<close>, then NaN);
  \<open>transform\<close> maps a label to its position and raises on a label that was not seen.
\<close>

datatype label_encoder = LabelEncoder (classes: "pyobj list option")

definition le_fit :: "pyobj list \<Rightarrow> pyobj list" where
  "le_fit ys =
     map Str (sort (remdups (map the_str (filter (\<lambda>y. \<not> is_missing y) ys))))
       @ (if PyNone \<in> set ys then [PyNone] else [])
       @ (if PyNaN \<in> set ys then [PyNaN] else [])"

definition le_codes :: "pyobj list \<Rightarrow> pyobj list \<Rightarrow> int list" where
  "le_codes cls ys = map (\<lambda>y. int (length (takeWhile (\<lambda>c. c \<noteq> y) cls))) ys"

definition le_transform :: "label_encoder \<Rightarrow> pyobj list \<Rightarrow> error + int list" where
  "le_transform enc ys =
     (case classes enc of
        None \<Rightarrow> Inl NotFittedError
      | Some cls \<Rightarrow> if set ys \<subseteq> set cls then Inr (le_codes cls ys) else Inl ValueError)"

text \<open>
  \<open>Series.astype(str)\<close>.  On a column of strings a missing value becomes the string
  \<open>'None'\<close> when it is held as \<open>None\<close> and \<open>'nan'\<close> when it is held as NaN.  The
  printing of numbers and of timestamps is not modelled: each is a fixed function about
  which nothing is assumed.
\<close>

definition float_str :: "fnum \<Rightarrow> string" where
  "float_str = (SOME f. True)"

definition int_str :: "int \<Rightarrow> string" where
  "int_str = (SOME f. True)"

definition time_str :: "timestamp option \<Rightarrow> string" where
  "time_str = (SOME f. True)"

fun astype_str :: "coldata \<Rightarrow> string list" where
  "astype_str (ObjCol xs) = map the_str xs"
| "astype_str (IntCol xs) = map int_str xs"
| "astype_str (FloatCol xs) = map float_str xs"
| "astype_str (TimeCol xs) = map time_str xs"

text \<open>
  \<open>pd.get_dummies(series, prefix=col)\<close>: one indicator column per distinct value that is
  not missing, in sorted order, named \<open>col_value\<close>.
\<close>

definition get_dummies :: "string \<Rightarrow> coldata \<Rightarrow> table" where
  "get_dummies col d =
     (let labels = (case d of
                      ObjCol xs \<Rightarrow> map (\<lambda>x. if is_missing x then None else Some (the_str x)) xs
                    | FloatCol xs \<Rightarrow> map (\<lambda>x. if x = NaN then None else Some (float_str x)) xs
                    | IntCol xs \<Rightarrow> map (\<lambda>x. Some (int_str x)) xs
                    | TimeCol xs \<Rightarrow> map (\<lambda>x. if x = None then None else Some (time_str x)) xs)
      in map (\<lambda>v. (col @ ''_'' @ v, IntCol (map (\<lambda>x. if x = Some v then 1 else 0) labels)))
           (sort (remdups (map the (filter (\<lambda>y. y \<noteq> None) labels)))))"

text \<open>
  A scaler: the kind that was constructed, and once fitted the names of the columns it was
  fitted on with two parameters per column (\<open>mean_\<close> and \<open>scale_\<close> of a
  \<open>StandardScaler\<close>, \<open>min_\<close> and \<open>scale_\<close> of a \<open>MinMaxScaler\<close>).
\<close>

datatype scaler_kind = Standard | MinMax

datatype scaler =
  Scaler (kind: scaler_kind) (fitted: "(string list \<times> (fnum \<times> fnum) list) option")

text \<open>
  The statistics ignore NaN.  A scale of zero is replaced by one.  The variance is that
  of the population.
\<close>

definition nan_var :: "fnum list \<Rightarrow> fnum" where
  "nan_var xs =
     (let ys = filter (\<lambda>x. x \<noteq> NaN) xs; m = series_mean xs
      in f_div (fsum (map (\<lambda>y. f_mul (f_sub y m) (f_sub y m)) ys)) (Fin (real (length ys))))"

definition nan_min :: "fnum list \<Rightarrow> fnum" where
  "nan_min xs =
     (case filter (\<lambda>x. x \<noteq> NaN) xs of
        [] \<Rightarrow> NaN
      | y # ys \<Rightarrow> fold (\<lambda>a b. if f_lt a b then a else b) ys y)"

definition nan_max :: "fnum list \<Rightarrow> fnum" where
  "nan_max xs =
     (case filter (\<lambda>x. x \<noteq> NaN) xs of
        [] \<Rightarrow> NaN
      | y # ys \<Rightarrow> fold (\<lambda>a b. if f_lt b a then a else b) ys y)"

definition handle_zero :: "fnum \<Rightarrow> fnum" where
  "handle_zero s = (if s = Fin 0 then Fin 1 else s)"

definition fit_params :: "scaler_kind \<Rightarrow> fnum list \<Rightarrow> fnum \<times> fnum" where
  "fit_params k xs =
     (case k of
        Standard \<Rightarrow> (series_mean xs, handle_zero (f_sqrt (nan_var xs)))
      | MinMax \<Rightarrow>
          (let sc = f_div (Fin 1) (handle_zero (f_sub (nan_max xs) (nan_min xs)))
           in (f_sub (Fin 0) (f_mul (nan_min xs) sc), sc)))"

definition apply_params :: "scaler_kind \<Rightarrow> fnum \<times> fnum \<Rightarrow> fnum list \<Rightarrow> fnum list" where
  "apply_params k p xs =
     (case k of
        Standard \<Rightarrow> map (\<lambda>x. f_div (f_sub x (fst p)) (snd p)) xs
      | MinMax \<Rightarrow> map (\<lambda>x. f_add (f_mul x (snd p)) (fst p)) xs)"

text \<open>
  The validation that every estimator performs on its input: at least one column and one
  row, numbers only, no infinity (NaN is allowed by the scalers).
\<close>

fun sequence_e :: "(error + 'a) list \<Rightarrow> error + 'a list" where
  "sequence_e [] = Inr []"
| "sequence_e (m # ms) = bind_e m (\<lambda>x. bind_e (sequence_e ms) (\<lambda>xs. Inr (x # xs)))"

definition check_array :: "table \<Rightarrow> error + fnum list list" where
  "check_array X =
     (if X = [] \<or> nrows X = 0 then Inl ValueError
      else
        (case sequence_e (map (\<lambda>(c, d). as_floats d) X) of
           Inl e \<Rightarrow> Inl ValueError
         | Inr cols \<Rightarrow>
             if list_ex (\<lambda>xs. PInf \<in> set xs \<or> NInf \<in> set xs) cols then Inl ValueError
             else Inr cols))"

definition scaler_fit_transform :: "scaler_kind \<Rightarrow> table \<Rightarrow> error + scaler \<times> table" where
  "scaler_fit_transform k X =
     bind_e (check_array X) (\<lambda>cols.
       let ps = map (fit_params k) cols
       in Inr (Scaler k (Some (map fst X, ps)),
               map (\<lambda>(c, p, xs). (c, FloatCol (apply_params k p xs)))
                 (zip (map fst X) (zip ps cols))))"

definition scaler_transform :: "scaler \<Rightarrow> table \<Rightarrow> error + table" where
  "scaler_transform sc X =
     (case fitted sc of
        None \<Rightarrow> Inl NotFittedError
      | Some (names, ps) \<Rightarrow>
          if map fst X \<noteq> names then Inl ValueError
          else bind_e (check_array X) (\<lambda>cols.
            Inr (map (\<lambda>(c, p, xs). (c, FloatCol (apply_params (kind sc) p xs)))
                   (zip names (zip ps cols)))))"

text \<open>
  A \<open>SelectKBest\<close>: the name of its score function, \<open>k\<close>, and once fitted the names of
  the columns it was fitted on with the mask of those it keeps.  Which columns the
  univariate test keeps (and whether fitting raises, for example on \<open>k\<close> larger than the
  number of columns) is not modelled: \<open>select_k_best_fit\<close> is a fixed function about
  which nothing is assumed.
\<close>

datatype selector =
  SelectKBest (score_func: string) (k_best: nat) (support: "(string list \<times> bool list) option")

definition select_k_best_fit :: "string \<Rightarrow> nat \<Rightarrow> table \<Rightarrow> coldata \<Rightarrow> error + bool list" where
  "select_k_best_fit = (SOME f. True)"

definition selector_transform :: "selector \<Rightarrow> table \<Rightarrow> error + fnum list list" where
  "selector_transform sel X =
     (case support sel of
        None \<Rightarrow> Inl NotFittedError
      | Some (names, keep_mask) \<Rightarrow>
          if map fst X \<noteq> names then Inl ValueError
          else bind_e (check_array X) (\<lambda>cols. Inr (keep keep_mask cols)))"

text \<open>
  \<open>train_test_split\<close> with its seeded shuffle is not modelled either: a fixed function
  from the features, the labels, the test fraction and the stratification labels.
\<close>

definition train_test_split ::
  "table \<Rightarrow> coldata \<Rightarrow> real \<Rightarrow> coldata option
     \<Rightarrow> error + (table \<times> table \<times> coldata \<times> coldata)" where
  "train_test_split = (SOME f. True)"

subsection \<open>The preprocessor\<close>

text \<open>
  The attributes of a \<open>DataPreprocessor\<close> (lines 13-18).  A method returns the
  preprocessor as it is when the method ends, whether it returns or raises, with the
  value returned or the exception.
\<close>

record preprocessor =
  label_encoders :: "string \<Rightarrow> label_encoder option"
  scaler :: "scaler option"
  imputer :: "unit option"
  feature_selector :: "selector option"
  target_encoder :: "label_encoder option"

definition new_preprocessor :: preprocessor where
  "new_preprocessor =
     \<lparr>label_encoders = (\<lambda>c. None), scaler = None, imputer = None,
      feature_selector = None, target_encoder = None\<rparr>"

text \<open>\<open>df.select_dtypes(include=['object']).columns\<close> and the same for numbers.\<close>

definition object_columns :: "table \<Rightarrow> string list" where
  "object_columns t = map fst (filter (\<lambda>(c, d). is_object d) t)"

definition number_columns :: "table \<Rightarrow> string list" where
  "number_columns t = map fst (filter (\<lambda>(c, d). is_number d) t)"

text \<open>
  The loop of \<open>encode_categorical_variables\<close> (lines 69-78).  With the method \<open>label\<close> a
  column without an encoder gets a new one, which is stored before the column is read
  and fitted; a column with an encoder is transformed by it.
\<close>

fun encode_loop ::
  "preprocessor \<Rightarrow> string \<Rightarrow> string list \<Rightarrow> table \<Rightarrow> preprocessor \<times> (error + table)" where
  "encode_loop self method [] df_copy = (self, Inr df_copy)"
| "encode_loop self method (col # cols) df_copy =
     (if method = ''label''
      then
        (case label_encoders self col of
           None \<Rightarrow>
             (case get_column df_copy col of
                Inl e \<Rightarrow>
                  (self\<lparr>label_encoders := (label_encoders self)(col \<mapsto> LabelEncoder None)\<rparr>,
                   Inl e)
              | Inr d \<Rightarrow>
                  (let ys = map Str (astype_str d);
                       cls = le_fit ys
                   in encode_loop
                        (self\<lparr>label_encoders :=
                           (label_encoders self)(col \<mapsto> LabelEncoder (Some cls))\<rparr>)
                        method cols (set_column df_copy col (IntCol (le_codes cls ys)))))
         | Some enc \<Rightarrow>
             (case bind_e (get_column df_copy col)
                     (\<lambda>d. le_transform enc (map Str (astype_str d))) of
                Inl e \<Rightarrow> (self, Inl e)
              | Inr codes \<Rightarrow>
                  encode_loop self method cols (set_column df_copy col (IntCol codes))))
      else if method = ''onehot''
      then
        (case get_column df_copy col of
           Inl e \<Rightarrow> (self, Inl e)
         | Inr d \<Rightarrow>
             encode_loop self method cols (drop_columns df_copy [col] @ get_dummies col d))
      else encode_loop self method cols df_copy)"

definition encode_categorical_variables ::
  "preprocessor \<Rightarrow> table \<Rightarrow> string list option \<Rightarrow> string
     \<Rightarrow> preprocessor \<times> (error + table)" where
  "encode_categorical_variables self df cols method =
     encode_loop self method (case cols of None \<Rightarrow> object_columns df | Some cs \<Rightarrow> cs) df"

text \<open>\<open>df[columns]\<close> and \<open>df[columns] = values\<close> for a list of column names.\<close>

definition get_columns :: "table \<Rightarrow> string list \<Rightarrow> error + table" where
  "get_columns t cs = sequence_e (map (\<lambda>c. bind_e (get_column t c) (\<lambda>d. Inr (c, d))) cs)"

definition set_columns :: "table \<Rightarrow> table \<Rightarrow> table" where
  "set_columns t new = fold (\<lambda>(c, d) acc. set_column acc c d) new t"

text \<open>
  \<open>scale_features\<close> (lines 82-102).  Both branches test \<open>self.scaler is None\<close>: a new
  scaler of the kind that the method names is stored and then fitted; a scaler that is
  there is applied, whatever the method and its kind.
\<close>

definition scale_with :: "scaler_kind \<Rightarrow> preprocessor \<Rightarrow> table \<Rightarrow> string list
     \<Rightarrow> preprocessor \<times> (error + table)" where
  "scale_with k self df_copy cs =
     (case scaler self of
        None \<Rightarrow>
          (case bind_e (get_columns df_copy cs) (scaler_fit_transform k) of
             Inl e \<Rightarrow> (self\<lparr>scaler := Some (Scaler k None)\<rparr>, Inl e)
           | Inr (sc, out) \<Rightarrow> (self\<lparr>scaler := Some sc\<rparr>, Inr (set_columns df_copy out)))
      | Some sc \<Rightarrow>
          (self,
           bind_e (get_columns df_copy cs) (\<lambda>X.
           bind_e (scaler_transform sc X) (\<lambda>out. Inr (set_columns df_copy out)))))"

definition scale_features ::
  "preprocessor \<Rightarrow> table \<Rightarrow> string list option \<Rightarrow> string
     \<Rightarrow> preprocessor \<times> (error + table)" where
  "scale_features self df cols method =
     (let cs = (case cols of None \<Rightarrow> number_columns df | Some cs \<Rightarrow> cs)
      in if method = ''standard'' then scale_with Standard self df cs
         else if method = ''minmax'' then scale_with MinMax self df cs
         else (self, Inr df))"

text \<open>
  \<open>select_features\<close> (lines 104-118): the selected values as a new frame of float
  columns under the names \<open>X.columns[get_support()]\<close>, and those names.
\<close>

definition selected_frame :: "table \<Rightarrow> bool list \<Rightarrow> fnum list list \<Rightarrow> error + table \<times> string list" where
  "selected_frame X keep_mask cols =
     (if length keep_mask \<noteq> length X then Inl IndexError
      else Inr (zip (keep keep_mask (map fst X)) (map FloatCol cols),
                keep keep_mask (map fst X)))"

definition select_features ::
  "preprocessor \<Rightarrow> table \<Rightarrow> coldata \<Rightarrow> nat \<Rightarrow> string
     \<Rightarrow> preprocessor \<times> (error + table \<times> string list)" where
  "select_features self X y k task_type =
     (let sf = (if task_type = ''classification'' then ''f_classif'' else ''f_regression'')
      in case feature_selector self of
           None \<Rightarrow>
             (case select_k_best_fit sf k X y of
                Inl e \<Rightarrow> (self\<lparr>feature_selector := Some (SelectKBest sf k None)\<rparr>, Inl e)
              | Inr keep_mask \<Rightarrow>
                  (let sel = SelectKBest sf k (Some (map fst X, keep_mask))
                   in (self\<lparr>feature_selector := Some sel\<rparr>,
                       bind_e (selector_transform sel X) (selected_frame X keep_mask))))
         | Some sel \<Rightarrow>
             (self,
              bind_e (selector_transform sel X) (\<lambda>cols.
                case support sel of
                  None \<Rightarrow> Inl NotFittedError
                | Some (names, keep_mask) \<Rightarrow> selected_frame X keep_mask cols)))"

text \<open>
  The encoding of the target in \<open>preprocess_pipeline\<close> (lines 139-144), for a
  classification task with a target of dtype \<open>object\<close>.
\<close>

definition encode_target ::
  "preprocessor \<Rightarrow> coldata \<Rightarrow> string \<Rightarrow> preprocessor \<times> (error + coldata)" where
  "encode_target self y task_type =
     (case y of
        ObjCol ys \<Rightarrow>
          if task_type = ''classification''
          then
            (case target_encoder self of
               None \<Rightarrow>
                 (self\<lparr>target_encoder := Some (LabelEncoder (Some (le_fit ys)))\<rparr>,
                  Inr (IntCol (le_codes (le_fit ys) ys)))
             | Some enc \<Rightarrow>
                 (self, bind_e (le_transform enc ys) (\<lambda>codes. Inr (IntCol codes))))
          else (self, Inr y)
      | d \<Rightarrow> (self, Inr y))"

text \<open>
  \<open>preprocess_pipeline\<close> before the feature selection (lines 126-149): the features and
  the target after imputation, encoding and scaling.
\<close>

definition preprocess_before_selection ::
  "preprocessor \<Rightarrow> table \<Rightarrow> string \<Rightarrow> string \<Rightarrow> string \<Rightarrow> string \<Rightarrow> string
     \<Rightarrow> preprocessor \<times> (error + table \<times> coldata)" where
  "preprocess_before_selection self df target_column missing_strategy encoding_method
       scaling_method task_type =
     (case get_column df target_column of
        Inl e \<Rightarrow> (self, Inl e)
      | Inr y \<Rightarrow>
          (case handle_missing_values (drop_columns df [target_column]) missing_strategy None of
             Inl e \<Rightarrow> (self, Inl e)
           | Inr X1 \<Rightarrow>
               (case (if object_columns X1 \<noteq> []
                      then encode_categorical_variables self X1 (Some (object_columns X1))
                             encoding_method
                      else (self, Inr X1)) of
                  (self1, Inl e) \<Rightarrow> (self1, Inl e)
                | (self1, Inr X2) \<Rightarrow>
                    (case encode_target self1 y task_type of
                       (self2, Inl e) \<Rightarrow> (self2, Inl e)
                     | (self2, Inr y1) \<Rightarrow>
                         (case (if number_columns X2 \<noteq> []
                                then scale_features self2 X2 (Some (number_columns X2))
                                       scaling_method
                                else (self2, Inr X2)) of
                            (self3, Inl e) \<Rightarrow> (self3, Inl e)
                          | (self3, Inr X3) \<Rightarrow> (self3, Inr (X3, y1)))))))"

text \<open>
  \<open>preprocess_pipeline\<close> up to the split (lines 126-154).  The selection runs when
  \<open>feature_selection_k\<close> is given, is not zero and is less than the number of columns
  of the features (line 152); otherwise the features pass as they are.
\<close>

definition preprocess_features ::
  "preprocessor \<Rightarrow> table \<Rightarrow> string \<Rightarrow> string \<Rightarrow> string \<Rightarrow> string \<Rightarrow> nat option \<Rightarrow> string
     \<Rightarrow> preprocessor \<times> (error + table \<times> coldata)" where
  "preprocess_features self df target_column missing_strategy encoding_method
       scaling_method feature_selection_k task_type =
     (case preprocess_before_selection self df target_column missing_strategy
             encoding_method scaling_method task_type of
        (self3, Inl e) \<Rightarrow> (self3, Inl e)
      | (self3, Inr (X, y)) \<Rightarrow>
          (case feature_selection_k of
             None \<Rightarrow> (self3, Inr (X, y))
           | Some k \<Rightarrow>
               if k \<noteq> 0 \<and> k < length X
               then
                 (case select_features self3 X y k task_type of
                    (self4, Inl e) \<Rightarrow> (self4, Inl e)
                  | (self4, Inr (X4, selected_features)) \<Rightarrow> (self4, Inr (X4, y)))
               else (self3, Inr (X, y))))"

text \<open>\<open>preprocess_pipeline\<close> (lines 120-161): the features, then the split.\<close>

definition preprocess_pipeline ::
  "preprocessor \<Rightarrow> table \<Rightarrow> string \<Rightarrow> real \<Rightarrow> string \<Rightarrow> string \<Rightarrow> string \<Rightarrow> nat option
     \<Rightarrow> string
     \<Rightarrow> preprocessor \<times> (error + table \<times> table \<times> coldata \<times> coldata \<times> string list)" where
  "preprocess_pipeline self df target_column test_size missing_strategy encoding_method
       scaling_method feature_selection_k task_type =
     (case preprocess_features self df target_column missing_strategy encoding_method
             scaling_method feature_selection_k task_type of
        (self', Inl e) \<Rightarrow> (self', Inl e)
      | (self', Inr (X, y)) \<Rightarrow>
          (self',
           bind_e (train_test_split X y test_size
                     (if task_type = ''classification'' then Some y else None))
             (\<lambda>(X_train, X_test, y_train, y_test).
                Inr (X_train, X_test, y_train, y_test, columns X))))"

text \<open>\<open>df.reindex(columns=feature_columns, fill_value=0)\<close>.\<close>

definition reindex :: "table \<Rightarrow> string list \<Rightarrow> table" where
  "reindex t feature_columns =
     map (\<lambda>c. (c, case map_of t c of
                     Some d \<Rightarrow> d
                   | None \<Rightarrow> IntCol (replicate (nrows t) 0))) feature_columns"

text \<open>
  \<open>transform_new_data\<close> (lines 163-190).  The imputation and the encoding run without
  any test of what has been fitted; the scaling and the selection run when a scaler and a
  selector are there.
\<close>

definition transform_new_data ::
  "preprocessor \<Rightarrow> table \<Rightarrow> string list \<Rightarrow> preprocessor \<times> (error + table)" where
  "transform_new_data self df feature_columns =
     (case handle_missing_values df ''mean'' None of
        Inl e \<Rightarrow> (self, Inl e)
      | Inr X1 \<Rightarrow>
          (case (if object_columns X1 \<noteq> []
                 then encode_categorical_variables self X1 (Some (object_columns X1)) ''label''
                 else (self, Inr X1)) of
             (self1, Inl e) \<Rightarrow> (self1, Inl e)
           | (self1, Inr X2) \<Rightarrow>
               (case (if number_columns X2 \<noteq> [] \<and> scaler self1 \<noteq> None
                      then scale_features self1 X2 (Some (number_columns X2)) ''standard''
                      else (self1, Inr X2)) of
                  (self2, Inl e) \<Rightarrow> (self2, Inl e)
                | (self2, Inr X3) \<Rightarrow>
                    (case feature_selector self2 of
                       None \<Rightarrow> (self2, Inr (reindex X3 feature_columns))
                     | Some sel \<Rightarrow>
                         (self2,
                          bind_e (selector_transform sel X3) (\<lambda>cols.
                            if length cols \<noteq> length feature_columns then Inl ValueError
                            else Inr (reindex (zip feature_columns (map FloatCol cols))
                                        feature_columns)))))))"

text \<open>Tables for the examples: two training tables and a table of new data.\<close>

definition example_train :: table where
  "example_train =
     [(''age'', FloatCol [Fin 20, Fin 40, Fin 30]),
      (''income'', FloatCol [Fin 100, Fin 300, Fin 200]),
      (''city'', ObjCol [Str ''Oslo'', Str ''Rome'', Str ''Oslo'']),
      (''label'', ObjCol [Str ''yes'', Str ''no'', Str ''yes''])]"


definition example_numeric :: table where
  "example_numeric =
     [(''age'', FloatCol [Fin 50, NaN, Fin 70]),
      (''visits'', IntCol [1, 2, 3])]"

section \<open>Data frames as objects\<close>

text \<open>
  The methods above are written on the values of data frames.  To say that a method
  leaves the frame of its caller alone, frames are objects in a store: the frame at
  every address, and the limit below which addresses are in use.  \<open>df.copy()\<close> and every
  operation that returns a new frame (\<open>dropna\<close>, \<open>drop\<close>, \<open>concat\<close>) allocate; a column
  assignment and \<open>fillna(inplace=True)\<close> change the frame at the address of the variable
  they are applied to.
\<close>

record store =
  frames :: "nat \<Rightarrow> table"
  lim :: nat

definition alloc :: "table \<Rightarrow> store \<Rightarrow> nat \<times> store" where
  "alloc t h = (lim h, h\<lparr>frames := (frames h)(lim h := t), lim := Suc (lim h)\<rparr>)"

definition frame_copy :: "nat \<Rightarrow> store \<Rightarrow> nat \<times> store" where
  "frame_copy a h = alloc (frames h a) h"

definition frame_put :: "nat \<Rightarrow> table \<Rightarrow> store \<Rightarrow> store" where
  "frame_put a t h = h\<lparr>frames := (frames h)(a := t)\<rparr>"

text \<open>
  Statements run in place on the frame at an address; what was assigned before a
  statement raises stays assigned.
\<close>

fun run_in_place :: "stmt list \<Rightarrow> nat \<Rightarrow> store \<Rightarrow> error option \<times> store" where
  "run_in_place [] a h = (None, h)"
| "run_in_place (s # ss) a h =
     (case s (frames h a) of
        Inl e \<Rightarrow> (Some e, h)
      | Inr t \<Rightarrow> run_in_place ss a (frame_put a t h))"

text \<open>
  \<open>add_technical_indicators\<close> on objects (lines 77-129): the statements run on the copy
  \<open>df\<close>; the method returns \<open>df\<close>, or the argument \<open>data\<close> after an exception.
\<close>

definition add_technical_indicators_obj :: "nat \<Rightarrow> store \<Rightarrow> nat \<times> store" where
  "add_technical_indicators_obj data h =
     (case frame_copy data h of
        (df, h1) \<Rightarrow>
          (case run_in_place add_technical_indicators_stmts df h1 of
             (Some e, h2) \<Rightarrow> (data, h2)
           | (None, h2) \<Rightarrow> (df, h2)))"

text \<open>
  The target methods on objects (lines 140-172 and 183-202): the target is assigned to
  the copy (for \<open>volatility_breakout\<close> to the frame that \<open>add_technical_indicators\<close>
  returned for the copy), and \<open>dropna\<close> returns a new frame.
\<close>

definition create_classification_target_obj ::
  "nat \<Rightarrow> string \<Rightarrow> nat \<Rightarrow> store \<Rightarrow> nat \<times> store" where
  "create_classification_target_obj data method periods h =
     (case frame_copy data h of
        (df, h1) \<Rightarrow>
          (case (if method = ''volatility_breakout'' then add_technical_indicators_obj df h1
                 else (df, h1)) of
             (df', h2) \<Rightarrow>
               (case run_in_place (classification_target_stmts method periods) df' h2 of
                  (Some e, h3) \<Rightarrow> (data, h3)
                | (None, h3) \<Rightarrow>
                    (case dropna_subset (frames h3 df') ''Target'' of
                       Inl e \<Rightarrow> (data, h3)
                     | Inr t \<Rightarrow> alloc t h3))))"

definition create_regression_target_obj ::
  "nat \<Rightarrow> string \<Rightarrow> nat \<Rightarrow> store \<Rightarrow> nat \<times> store" where
  "create_regression_target_obj data target_type periods h =
     (case frame_copy data h of
        (df, h1) \<Rightarrow>
          (case run_in_place (regression_target_stmts target_type periods) df h1 of
             (Some e, h2) \<Rightarrow> (data, h2)
           | (None, h2) \<Rightarrow>
               (case dropna_subset (frames h2 df) ''Target'' of
                  Inl e \<Rightarrow> (data, h2)
                | Inr t \<Rightarrow> alloc t h2)))"

text \<open>
  \<open>prepare_ml_dataset\<close> on objects (lines 279-316).  The calendar columns are assigned to
  the frame that the target method returned, which is a new frame or, after an exception
  inside that method, the frame that was passed to it.
\<close>

definition prepare_ml_dataset_obj ::
  "nat \<Rightarrow> string \<Rightarrow> string \<Rightarrow> nat \<Rightarrow> bool \<Rightarrow> store \<Rightarrow> nat \<times> store" where
  "prepare_ml_dataset_obj data task_type target_method periods
       include_technical_indicators h =
     (case frame_copy data h of
        (df, h1) \<Rightarrow>
          (case (if include_technical_indicators then add_technical_indicators_obj df h1
                 else (df, h1)) of
             (df1, h2) \<Rightarrow>
               (case (if task_type = ''classification''
                      then create_classification_target_obj df1 target_method periods h2
                      else create_regression_target_obj df1 target_method periods h2) of
                  (df2, h3) \<Rightarrow>
                    (case run_in_place (date_stmts (frames h3 df2)) df2 h3 of
                       (Some e, h4) \<Rightarrow> (data, h4)
                     | (None, h4) \<Rightarrow>
                         (case alloc (drop_columns (frames h4 df2)
                                  (columns_to_drop (''Date'' \<in> set (columns (frames h3 df2)))
                                     (frames h4 df2))) h4 of
                            (df3, h5) \<Rightarrow> alloc (dropna (frames h5 df3)) h5)))))"

text \<open>
  \<open>handle_missing_values\<close> on objects (lines 34-60): the statistics are read from the
  argument \<open>df\<close>, the cells are filled in the copy \<open>df_copy\<close>.
\<close>

fun handle_missing_loop_obj ::
  "nat \<Rightarrow> string \<Rightarrow> string list \<Rightarrow> nat \<Rightarrow> store \<Rightarrow> (error + nat) \<times> store" where
  "handle_missing_loop_obj df strategy [] df_copy h = (Inr df_copy, h)"
| "handle_missing_loop_obj df strategy (col # cols) df_copy h =
     (case get_column (frames h df) col of
        Inl e \<Rightarrow> (Inl e, h)
      | Inr d \<Rightarrow>
          if has_null d
          then
            (case bind_e (get_column (frames h df_copy) col) (impute_step strategy d) of
               Inl e \<Rightarrow> (Inl e, h)
             | Inr dc' \<Rightarrow>
                 handle_missing_loop_obj df strategy cols df_copy
                   (frame_put df_copy (set_column (frames h df_copy) col dc') h))
          else handle_missing_loop_obj df strategy cols df_copy h)"

definition handle_missing_values_obj ::
  "nat \<Rightarrow> string \<Rightarrow> string list option \<Rightarrow> store \<Rightarrow> (error + nat) \<times> store" where
  "handle_missing_values_obj df strategy cols h =
     (case frame_copy df h of
        (df_copy, h1) \<Rightarrow>
          handle_missing_loop_obj df strategy
            (case cols of None \<Rightarrow> columns (frames h df) | Some cs \<Rightarrow> cs) df_copy h1)"

text \<open>
  \<open>encode_categorical_variables\<close> on objects (lines 62-80): the label codes are assigned
  to the copy; with \<open>onehot\<close> the variable \<open>df_copy\<close> is bound to the new frame that
  \<open>pd.concat\<close> returns.
\<close>

fun encode_loop_obj ::
  "preprocessor \<Rightarrow> string \<Rightarrow> string list \<Rightarrow> nat \<Rightarrow> store
     \<Rightarrow> preprocessor \<times> (error + nat) \<times> store" where
  "encode_loop_obj self method [] df_copy h = (self, Inr df_copy, h)"
| "encode_loop_obj self method (col # cols) df_copy h =
     (if method = ''label''
      then
        (case label_encoders self col of
           None \<Rightarrow>
             (case get_column (frames h df_copy) col of
                Inl e \<Rightarrow>
                  (self\<lparr>label_encoders := (label_encoders self)(col \<mapsto> LabelEncoder None)\<rparr>,
                   Inl e, h)
              | Inr d \<Rightarrow>
                  (let ys = map Str (astype_str d);
                       cls = le_fit ys
                   in encode_loop_obj
                        (self\<lparr>label_encoders :=
                           (label_encoders self)(col \<mapsto> LabelEncoder (Some cls))\<rparr>)
                        method cols df_copy
                        (frame_put df_copy
                           (set_column (frames h df_copy) col (IntCol (le_codes cls ys))) h)))
         | Some enc \<Rightarrow>
             (case bind_e (get_column (frames h df_copy) col)
                     (\<lambda>d. le_transform enc (map Str (astype_str d))) of
                Inl e \<Rightarrow> (self, Inl e, h)
              | Inr codes \<Rightarrow>
                  encode_loop_obj self method cols df_copy
                    (frame_put df_copy (set_column (frames h df_copy) col (IntCol codes)) h)))
      else if method = ''onehot''
      then
        (case get_column (frames h df_copy) col of
           Inl e \<Rightarrow> (self, Inl e, h)
         | Inr d \<Rightarrow>
             (case alloc (drop_columns (frames h df_copy) [col] @ get_dummies col d) h of
                (df_copy', h') \<Rightarrow> encode_loop_obj self method cols df_copy' h'))
      else encode_loop_obj self method cols df_copy h)"

definition encode_categorical_variables_obj ::
  "preprocessor \<Rightarrow> nat \<Rightarrow> string list option \<Rightarrow> string \<Rightarrow> store
     \<Rightarrow> preprocessor \<times> (error + nat) \<times> store" where
  "encode_categorical_variables_obj self df cols method h =
     (case frame_copy df h of
        (df_copy, h1) \<Rightarrow>
          encode_loop_obj self method
            (case cols of None \<Rightarrow> object_columns (frames h df) | Some cs \<Rightarrow> cs) df_copy h1)"

text \<open>
  \<open>scale_features\<close> on objects (lines 82-102): the scaled columns are assigned to the
  copy.
\<close>

definition scale_features_obj ::
  "preprocessor \<Rightarrow> nat \<Rightarrow> string list option \<Rightarrow> string \<Rightarrow> store
     \<Rightarrow> preprocessor \<times> (error + nat) \<times> store" where
  "scale_features_obj self df cols method h =
     (case frame_copy df h of
        (df_copy, h1) \<Rightarrow>
          (case scale_features self (frames h1 df_copy) cols method of
             (self', Inl e) \<Rightarrow> (self', Inl e, h1)
           | (self', Inr t) \<Rightarrow> (self', Inr df_copy, frame_put df_copy t h1)))"

text \<open>
  Whether the \<open>try\<close> block of a feature builder method raises, on the value of its
  argument: then the \<open>except\<close> clause returns the argument itself.
\<close>

definition raises :: "error + 'a \<Rightarrow> bool" where
  "raises m = (case m of Inl e \<Rightarrow> True | Inr x \<Rightarrow> False)"

definition add_technical_indicators_raises :: "table \<Rightarrow> bool" where
  "add_technical_indicators_raises data =
     raises (run_stmts add_technical_indicators_stmts data)"

definition create_classification_target_raises :: "table \<Rightarrow> string \<Rightarrow> nat \<Rightarrow> bool" where
  "create_classification_target_raises data method periods =
     raises (run_stmts (classification_target_stmts method periods
                         @ [\<lambda>df. dropna_subset df ''Target''])
               (if method = ''volatility_breakout'' then add_technical_indicators data
                else data))"

definition create_regression_target_raises :: "table \<Rightarrow> string \<Rightarrow> nat \<Rightarrow> bool" where
  "create_regression_target_raises data target_type periods =
     raises (run_stmts (regression_target_stmts target_type periods
                         @ [\<lambda>df. dropna_subset df ''Target'']) data)"

definition prepare_ml_dataset_raises ::
  "table \<Rightarrow> string \<Rightarrow> string \<Rightarrow> nat \<Rightarrow> bool \<Rightarrow> bool" where
  "prepare_ml_dataset_raises data task_type target_method periods
       include_technical_indicators =
     (let df1 = (if include_technical_indicators then add_technical_indicators data
                 else data);
          df2 = (if task_type = ''classification''
                 then create_classification_target df1 target_method periods
                 else create_regression_target df1 target_method periods)
      in raises (run_stmts (date_stmts df2) df2))"

text \<open>
  What a call may do to a store: use more addresses, and leave every frame that was in
  use before the call as it was.
\<close>

definition preserves :: "store \<Rightarrow> store \<Rightarrow> bool" where
  "preserves h h' = (lim h \<le> lim h' \<and> (\<forall>a. a < lim h \<longrightarrow> frames h' a = frames h a))"

text \<open>The frame at \<open>r\<close> was allocated between the stores \<open>h\<close> and \<open>h'\<close>.\<close>

definition new_frame :: "store \<Rightarrow> store \<Rightarrow> nat \<Rightarrow> bool" where
  "new_frame h h' r = (lim h \<le> r \<and> r < lim h')"

text \<open>A store with the price table at address 0 and a table without prices at address 1.\<close>

definition example_store :: store where
  "example_store =
     \<lparr>frames = (\<lambda>a. if a = 0 then example_daily else if a = 1 then example_missing else []),
      lim = 2\<rparr>"

section \<open>Registry: the best model\<close>

subsection \<open>The comparison of floats\<close>






subsection \<open>Metric names in either case\<close>











subsection \<open>The loop\<close>









section \<open>Registry: storage usage\<close>

lemma storage_loop_sums:
  "storage_loop fs md (total_size, n)
     = (total_size + existing_bytes fs md, n + length (existing fs md))"
proof (induction md arbitrary: total_size n)
  case Nil
  show ?case by (simp add: existing_bytes_def existing_def)
next
  case (Cons x md)
  obtain model_id r where x: "x = (model_id, r)" by (cases x)
  show ?case
  proof (cases "fs (model_path r)")
    case None
    then show ?thesis using Cons.IH [of total_size n]
      by (simp add: x existing_bytes_def existing_def)
  next
    case (Some st_size)
    then show ?thesis using Cons.IH [of "total_size + st_size" "n + 1"]
      by (simp add: x existing_bytes_def existing_def)
  qed
qed

lemma py_round2_zero: "py_round2 0 = 0"
  by (simp add: py_round2_def)

text \<open>
  C10.  \<open>storage_usage\<close> always returns a result and never divides by zero.  The count is
  the number of metadata entries whose artifact file exists, which is at most the number
  of entries, the total is the size of those files, and the average divides by
  \<open>max(count, 1)\<close>.  When no artifact file exists the result is count 0, total 0 and
  average 0.
\<close>

theorem get_storage_usage_total:
  "get_storage_usage fs md =
     Inr \<lparr>total_size_mb = py_round2 (real (existing_bytes fs md) / (1024 * 1024)),
          model_count = length (existing fs md),
          avg_size_mb = py_round2 (real (existing_bytes fs md) / (1024 * 1024)
                          / real (max (length (existing fs md)) 1))\<rparr>
   \<and> length (existing fs md) \<le> length md
   \<and> (existing fs md = []
        \<longrightarrow> get_storage_usage fs md
            = Inr \<lparr>total_size_mb = 0, model_count = 0, avg_size_mb = 0\<rparr>)"
proof -
  have loop: "storage_loop fs md (0, 0) = (existing_bytes fs md, length (existing fs md))"
    using storage_loop_sums [of fs md 0 0] by simp
  have pos: "real (max (length (existing fs md)) 1) \<noteq> 0" by simp
  have r: "get_storage_usage fs md =
     Inr \<lparr>total_size_mb = py_round2 (real (existing_bytes fs md) / (1024 * 1024)),
          model_count = length (existing fs md),
          avg_size_mb = py_round2 (real (existing_bytes fs md) / (1024 * 1024)
                          / real (max (length (existing fs md)) 1))\<rparr>"
    unfolding get_storage_usage_def loop using pos by (simp add: py_truediv_def)
  have le: "length (existing fs md) \<le> length md" by (simp add: existing_def)
  have z: "existing fs md = [] \<Longrightarrow> get_storage_usage fs md
            = Inr \<lparr>total_size_mb = 0, model_count = 0, avg_size_mb = 0\<rparr>"
    unfolding r by (simp add: existing_bytes_def py_round2_zero)
  show ?thesis using r le z by blast
qed

text \<open>
  With no artifact file on disk the six entries give count 0; with two files of 1 MiB and
  3 MiB left the count is 2, smaller than the six entries, the total 4 and the average 2.
\<close>

theorem get_storage_usage_total_witness:
  "existing (\<lambda>p. None) example_registry = []
   \<and> get_storage_usage (\<lambda>p. None) example_registry
       = Inr \<lparr>total_size_mb = 0, model_count = 0, avg_size_mb = 0\<rparr>
   \<and> length example_registry = 6
   \<and> get_storage_usage example_files example_registry
       = Inr \<lparr>total_size_mb = 4, model_count = 2, avg_size_mb = 2\<rparr>"
proof -
  have a: "existing (\<lambda>p. None) example_registry = []"
    by (simp add: existing_def)
  have b: "get_storage_usage (\<lambda>p. None) example_registry
       = Inr \<lparr>total_size_mb = 0, model_count = 0, avg_size_mb = 0\<rparr>"
    using get_storage_usage_total [of "\<lambda>p. None" example_registry] a by blast
  have c: "length example_registry = 6"
    by (simp add: example_registry_def)
  have d: "get_storage_usage example_files example_registry
       = Inr \<lparr>total_size_mb = 4, model_count = 2, avg_size_mb = 2\<rparr>"
    by (simp add: get_storage_usage_def example_registry_def example_files_def
        py_truediv_def py_round2_def)
  show ?thesis using a b c d by blast
qed

section \<open>Feature builder: the RSI at its boundaries\<close>



lemma windows_length: "length (windows w xs) = length xs"
  by (simp add: windows_def)







text \<open>A list whose elements are all finite is the image of a list of reals.\<close>

lemma all_Fin_map:
  assumes "\<And>k. k < length ys \<Longrightarrow> ys ! k = Fin (f k)"
  shows "ys = map Fin (map f [0..<length ys])"
  using assms by (intro nth_equalityI) simp_all

















subsection \<open>The column that \<open>add_technical_indicators\<close> assigns\<close>








section \<open>Feature builder: targets and the data set\<close>

lemmas stmt_defs = run_stmts.simps bind_e_def assign_ints_def assign_floats_def
  on_column_def on_columns_def get_floats_def get_column_def dropna_subset_def
  complete_rows_def nrows_def keep_def shift_up_def f_gt_def

text \<open>
  C1.  For the closes 10, 12, 11, 15 and \<open>periods = 1\<close> the method
  \<open>create_classification_target\<close> with \<open>price_direction\<close> returns all four rows, with
  the targets 1, 0, 1, 0: the comparison with the missing forward close of the last row
  is false, \<open>astype(int)\<close> turns it into 0, and \<open>dropna(subset=['Target'])\<close> finds
  nothing to drop.  The last input row is present, with target 0.
\<close>

theorem create_classification_target_keeps_tail:
  "create_classification_target example_ohlcv ''price_direction'' 1
     = example_ohlcv @ [(''Target'', IntCol [1, 0, 1, 0])]
   \<and> nrows (create_classification_target example_ohlcv ''price_direction'' 1) = 4"
proof -
  have "create_classification_target example_ohlcv ''price_direction'' 1
     = example_ohlcv @ [(''Target'', IntCol [1, 0, 1, 0])]"
    unfolding create_classification_target_def classification_target_stmts_def
      example_ohlcv_def price_direction_target_def
    by (simp add: stmt_defs upt_rec)
  then show ?thesis by (simp add: nrows_def example_ohlcv_def)
qed

text \<open>
  C8.  For an intraday price series, whose timestamp column the data provider names
  \<open>Datetime\<close>, \<open>prepare_ml_dataset\<close> returns a table that still holds that column: it
  is not called \<open>Date\<close> and its dtype is not \<open>object\<close>, so neither test of lines
  294-305 drops it, and it is not numeric.
\<close>

theorem prepare_ml_dataset_keeps_datetime:
  "prepare_ml_dataset example_intraday ''classification'' ''price_direction'' 1 False
     = example_intraday @ [(''Target'', IntCol [1, 0, 1, 0])]
   \<and> map_of (prepare_ml_dataset example_intraday ''classification'' ''price_direction'' 1
        False) ''Datetime'' = Some (TimeCol example_stamps)
   \<and> is_number (TimeCol example_stamps) = False"
proof -
  have "prepare_ml_dataset example_intraday ''classification'' ''price_direction'' 1 False
     = example_intraday @ [(''Target'', IntCol [1, 0, 1, 0])]"
    unfolding prepare_ml_dataset_def create_classification_target_def
      classification_target_stmts_def example_ohlcv_def example_intraday_def
      example_stamps_def price_direction_target_def date_stmts_def columns_to_drop_def
      columns_def drop_columns_def dropna_def
    by (simp add: stmt_defs upt_rec)
  then show ?thesis by (simp add: example_intraday_def)
qed

section \<open>Preprocessor: imputation\<close>


lemma get_column_middle:
  assumes "c \<notin> set (map fst p)"
  shows "get_column (p @ (c, d) # r) c = Inr d"
  using assms by (induction p) (auto simp: get_column_def)

lemma set_column_middle:
  assumes "c \<notin> set (map fst p)"
  shows "set_column (p @ (c, d) # r) c d' = p @ (c, d') # r"
  using assms by (induction p) auto

lemma handle_missing_loop_rel:
  assumes "distinct (map fst (p @ r))" and "map fst p' = map fst p"
    and "handle_missing_loop (p @ r) s (map fst r) (p' @ r) = Inr t'"
  shows "\<exists>r'. t' = p' @ r'
    \<and> list_all2 (\<lambda>x y. fst y = fst x
          \<and> (if has_null (snd x) then impute_step s (snd x) (snd x) = Inr (snd y)
              else snd y = snd x)) r r'"
  using assms
proof (induction r arbitrary: p p')
  case Nil
  then show ?case by simp
next
  case (Cons x r)
  obtain c d where x: "x = (c, d)" by (cases x)
  have cp: "c \<notin> set (map fst p)" using Cons.prems(1) by (simp add: x)
  then have cp': "c \<notin> set (map fst p')" using Cons.prems(2) by simp
  have g: "get_column (p @ x # r) c = Inr d" unfolding x using cp by (rule get_column_middle)
  have g': "get_column (p' @ x # r) c = Inr d" unfolding x using cp' by (rule get_column_middle)
  have d1: "distinct (map fst ((p @ [x]) @ r))" using Cons.prems(1) by simp
  show ?case
  proof (cases "has_null d")
    case False
    have "handle_missing_loop ((p @ [x]) @ r) s (map fst r) ((p' @ [x]) @ r) = Inr t'"
      using Cons.prems(3) g False by (simp add: x bind_e_def)
    moreover have "map fst (p' @ [x]) = map fst (p @ [x])" using Cons.prems(2) by simp
    ultimately obtain r' where r': "t' = (p' @ [x]) @ r'"
      "list_all2 (\<lambda>x y. fst y = fst x
          \<and> (if has_null (snd x) then impute_step s (snd x) (snd x) = Inr (snd y)
              else snd y = snd x)) r r'"
      using Cons.IH [OF d1] by blast
    show ?thesis
      by (rule exI [of _ "x # r'"]) (use r' False in \<open>simp add: x\<close>)
  next
    case True
    have l: "bind_e (impute_step s d d) (\<lambda>dc'.
              handle_missing_loop (p @ x # r) s (map fst r) (set_column (p' @ x # r) c dc'))
            = Inr t'"
      using Cons.prems(3) g g' True by (simp add: x bind_e_def)
    then obtain dc' where dc: "impute_step s d d = Inr dc'"
      and l2: "handle_missing_loop (p @ x # r) s (map fst r) (set_column (p' @ x # r) c dc') = Inr t'"
      by (cases "impute_step s d d") (simp_all add: bind_e_def)
    have "set_column (p' @ x # r) c dc' = p' @ (c, dc') # r"
      unfolding x using cp' by (rule set_column_middle)
    then have "handle_missing_loop ((p @ [x]) @ r) s (map fst r) ((p' @ [(c, dc')]) @ r) = Inr t'"
      using l2 by simp
    moreover have "map fst (p' @ [(c, dc')]) = map fst (p @ [x])"
      using Cons.prems(2) by (simp add: x)
    ultimately obtain r' where r': "t' = (p' @ [(c, dc')]) @ r'"
      "list_all2 (\<lambda>x y. fst y = fst x
          \<and> (if has_null (snd x) then impute_step s (snd x) (snd x) = Inr (snd y)
              else snd y = snd x)) r r'"
      using Cons.IH [OF d1] by blast
    show ?thesis
      by (rule exI [of _ "(c, dc') # r'"]) (use r' True dc in \<open>simp add: x\<close>)
  qed
qed

lemma handle_missing_loop_total:
  assumes "distinct (map fst (p @ r))" and "map fst p' = map fst p"
    and "list_all (\<lambda>x. has_null (snd x) \<longrightarrow> (\<exists>d'. impute_step s (snd x) (snd x) = Inr d')) r"
  shows "\<exists>t'. handle_missing_loop (p @ r) s (map fst r) (p' @ r) = Inr t'"
  using assms
proof (induction r arbitrary: p p')
  case Nil
  then show ?case by simp
next
  case (Cons x r)
  obtain c d where x: "x = (c, d)" by (cases x)
  have cp: "c \<notin> set (map fst p)" using Cons.prems(1) by (simp add: x)
  then have cp': "c \<notin> set (map fst p')" using Cons.prems(2) by simp
  have g: "get_column (p @ x # r) c = Inr d" unfolding x using cp by (rule get_column_middle)
  have g': "get_column (p' @ x # r) c = Inr d" unfolding x using cp' by (rule get_column_middle)
  have d1: "distinct (map fst ((p @ [x]) @ r))" using Cons.prems(1) by simp
  have rest: "list_all (\<lambda>x. has_null (snd x) \<longrightarrow> (\<exists>d'. impute_step s (snd x) (snd x) = Inr d')) r"
    using Cons.prems(3) by simp
  show ?case
  proof (cases "has_null d")
    case False
    have "map fst (p' @ [x]) = map fst (p @ [x])" using Cons.prems(2) by simp
    then obtain t' where "handle_missing_loop ((p @ [x]) @ r) s (map fst r) ((p' @ [x]) @ r) = Inr t'"
      using Cons.IH [OF d1 _ rest] by blast
    then show ?thesis using g False by (simp add: x bind_e_def)
  next
    case True
    then obtain dc' where dc: "impute_step s d d = Inr dc'"
      using Cons.prems(3) by (auto simp: x)
    have sc: "set_column (p' @ x # r) c dc' = p' @ (c, dc') # r"
      unfolding x using cp' by (rule set_column_middle)
    have "map fst (p' @ [(c, dc')]) = map fst (p @ [x])"
      using Cons.prems(2) by (simp add: x)
    then obtain t' where
      "handle_missing_loop ((p @ [x]) @ r) s (map fst r) ((p' @ [(c, dc')]) @ r) = Inr t'"
      using Cons.IH [OF d1 _ rest] by blast
    then show ?thesis using g g' True dc sc by (simp add: x bind_e_def)
  qed
qed


lemma list_all2_columns:
  assumes "list_all2 (\<lambda>x y. fst y = fst x \<and> Q x y) r r'"
  shows "map fst r' = map fst r"
  using assms by (induction rule: list_all2_induct) simp_all

lemma list_all2_lookup:
  assumes "list_all2 (\<lambda>x y. fst y = fst x \<and> Q x y) r r'" and "distinct (map fst r)"
    and "(c, d) \<in> set r"
  shows "\<exists>d'. map_of r' c = Some d' \<and> Q (c, d) (c, d')"
  using assms
proof (induction rule: list_all2_induct)
  case Nil
  then show ?case by simp
next
  case (Cons x xs y ys)
  show ?case
  proof (cases "x = (c, d)")
    case True
    then show ?thesis using Cons.hyps(1) by (cases y) auto
  next
    case False
    then have in_xs: "(c, d) \<in> set xs" using Cons.prems(2) by simp
    then have "c \<in> set (map fst xs)" by force
    then have "fst x \<noteq> c" using Cons.prems(1) by auto
    then have "fst y \<noteq> c" using Cons.hyps(1) by simp
    moreover have "\<exists>d'. map_of ys c = Some d' \<and> Q (c, d) (c, d')"
      using Cons.IH in_xs Cons.prems(1) by simp
    ultimately show ?thesis by (cases y) auto
  qed
qed

lemma filter_present:
  assumes "all_finite xs"
  shows "filter (\<lambda>x. x \<noteq> NaN) xs = map Fin (present_values xs)"
  using assms
proof (induction xs)
  case Nil
  then show ?case by (simp add: present_values_def)
next
  case (Cons x xs)
  then have "all_finite xs" by (auto simp: all_finite_def)
  then have "filter (\<lambda>x. x \<noteq> NaN) xs = map Fin (present_values xs)" using Cons.IH by blast
  moreover have "present_values (x # xs) = (case x of Fin r \<Rightarrow> [r] | y \<Rightarrow> []) @ present_values xs"
    by (simp add: present_values_def)
  ultimately show ?case using Cons.prems by (cases x) (auto simp: all_finite_def)
qed

lemma fsum_map_Fin: "fsum (map Fin rs) = Fin (sum_list rs)"
  by (induction rs) simp_all

lemma series_mean_finite:
  assumes "all_finite xs" and "present_values xs \<noteq> []"
  shows "series_mean xs = Fin (sum_list (present_values xs) / real (length (present_values xs)))"
  using assms(2)
  by (simp add: series_mean_def filter_present [OF assms(1)] fsum_map_Fin Let_def)

lemma impute_step_mean_ok:
  assumes "\<not> (is_datetime d \<and> has_null d)" and "has_null d"
  shows "\<exists>d'. impute_step ''mean'' d d = Inr d'"
  using assms by (cases d) (simp_all add: impute_numeric_def)

lemma fillna_floats_no_null:
  assumes "\<not> has_null (FloatCol xs)"
  shows "map (\<lambda>x. if x = NaN then v else x) xs = xs"
  using assms by (induction xs) (auto simp: has_null_def)

text \<open>
  C6.  On a table with distinct column names, \<open>impute\<close> with \<open>strategy=mean\<close> and all
  columns returns a table with the same column names in which every column without a
  missing value is the column of the input, and every float column is the column of the
  input with each NaN replaced by the mean of the column and every other cell as it was.
  That mean is the sum of the values present divided by their number.  The call returns
  a table whenever no datetime column has a missing timestamp.
\<close>

theorem handle_missing_values_mean:
  assumes "distinct (columns t)"
  shows "(list_all (\<lambda>(c, d). \<not> (is_datetime d \<and> has_null d)) t
            \<longrightarrow> (\<exists>t'. handle_missing_values t ''mean'' None = Inr t'))
    \<and> (\<forall>t'. handle_missing_values t ''mean'' None = Inr t' \<longrightarrow>
          columns t' = columns t
          \<and> (\<forall>(c, d) \<in> set t.
               (\<not> has_null d \<longrightarrow> map_of t' c = Some d)
               \<and> (\<forall>xs. d = FloatCol xs \<longrightarrow>
                     map_of t' c
                       = Some (FloatCol (map (\<lambda>x. if x = NaN then series_mean xs else x) xs)))))
    \<and> (\<forall>xs. all_finite xs \<and> present_values xs \<noteq> [] \<longrightarrow>
          series_mean xs
            = Fin (sum_list (present_values xs) / real (length (present_values xs))))"
proof (intro conjI allI impI)
  assume ok: "list_all (\<lambda>(c, d). \<not> (is_datetime d \<and> has_null d)) t"
  have "list_all (\<lambda>x. has_null (snd x)
           \<longrightarrow> (\<exists>d'. impute_step ''mean'' (snd x) (snd x) = Inr d')) t"
    unfolding list_all_iff
  proof (intro ballI impI)
    fix x assume "x \<in> set t" and n: "has_null (snd x)"
    then have "\<not> (is_datetime (snd x) \<and> has_null (snd x))"
      using ok unfolding list_all_iff by (cases x) auto
    then show "\<exists>d'. impute_step ''mean'' (snd x) (snd x) = Inr d'"
      using n by (rule impute_step_mean_ok)
  qed
  then have "\<exists>t'. handle_missing_loop ([] @ t) ''mean'' (map fst t) ([] @ t) = Inr t'"
    using assms by (intro handle_missing_loop_total) (simp_all add: columns_def)
  then show "\<exists>t'. handle_missing_values t ''mean'' None = Inr t'"
    by (simp add: handle_missing_values_def columns_def)
next
  fix t' assume r: "handle_missing_values t ''mean'' None = Inr t'"
  then have "handle_missing_loop ([] @ t) ''mean'' (map fst t) ([] @ t) = Inr t'"
    by (simp add: handle_missing_values_def columns_def)
  moreover have "distinct (map fst ([] @ t))" using assms by (simp add: columns_def)
  ultimately obtain r' where "t' = [] @ r'" and
    rel: "list_all2 (\<lambda>x y. fst y = fst x
          \<and> (if has_null (snd x) then impute_step ''mean'' (snd x) (snd x) = Inr (snd y)
              else snd y = snd x)) t r'"
    using handle_missing_loop_rel [of "[]" t "[]" "''mean''" t'] by blast
  then have rel': "list_all2 (\<lambda>x y. fst y = fst x
          \<and> (if has_null (snd x) then impute_step ''mean'' (snd x) (snd x) = Inr (snd y)
              else snd y = snd x)) t t'"
    by simp
  show "columns t' = columns t"
    unfolding columns_def using rel' by (rule list_all2_columns)
  show "\<forall>(c, d) \<in> set t.
               (\<not> has_null d \<longrightarrow> map_of t' c = Some d)
               \<and> (\<forall>xs. d = FloatCol xs \<longrightarrow>
                     map_of t' c
                       = Some (FloatCol (map (\<lambda>x. if x = NaN then series_mean xs else x) xs)))"
  proof (intro ballI, clarify)
    fix c d assume m: "(c, d) \<in> set t"
    have "distinct (map fst t)" using assms by (simp add: columns_def)
    then obtain d' where l: "map_of t' c = Some d'"
      and q: "if has_null d then impute_step ''mean'' d d = Inr d' else d' = d"
      using list_all2_lookup [OF rel' _ m] by (auto split: if_splits)
    have a: "\<not> has_null d \<longrightarrow> map_of t' c = Some d" using l q by auto
    have b: "map_of t' c
        = Some (FloatCol (map (\<lambda>x. if x = NaN then series_mean xs else x) xs))"
      if fl: "d = FloatCol xs" for xs
    proof (cases "has_null d")
      case True
      then have "d' = FloatCol (fillna_floats (series_mean xs) xs)"
        using q fl by (simp add: impute_numeric_def)
      then show ?thesis using l by (simp add: fillna_floats_def)
    next
      case False
      then have "d' = d" using q by simp
      moreover have "map (\<lambda>x. if x = NaN then series_mean xs else x) xs = xs"
        using False fl by (intro fillna_floats_no_null) simp
      ultimately show ?thesis using l fl by simp
    qed
    show "(\<not> has_null d \<longrightarrow> map_of t' c = Some d)
               \<and> (\<forall>xs. d = FloatCol xs \<longrightarrow>
                     map_of t' c
                       = Some (FloatCol (map (\<lambda>x. if x = NaN then series_mean xs else x) xs)))"
      using a b by blast
  qed
next
  fix xs assume "all_finite xs \<and> present_values xs \<noteq> []"
  then show "series_mean xs
            = Fin (sum_list (present_values xs) / real (length (present_values xs)))"
    using series_mean_finite by blast
qed

text \<open>
  A float column 8, NaN, 12 has mean 10, and 10 is what the missing cell receives; the
  other columns are as they were, except that the missing city becomes \<open>'Unknown'\<close>.
\<close>

theorem handle_missing_values_mean_witness:
  "distinct (columns example_missing)
   \<and> list_all (\<lambda>(c, d). \<not> (is_datetime d \<and> has_null d)) example_missing
   \<and> handle_missing_values example_missing ''mean'' None
       = Inr [(''age'', FloatCol [Fin 8, Fin 10, Fin 12]),
              (''height'', FloatCol [Fin 150, Fin 160, Fin 170]),
              (''city'', ObjCol [Str ''Oslo'', Str ''Unknown'', Str ''Rome'']),
              (''visits'', IntCol [1, 2, 3])]
   \<and> all_finite [Fin 8, NaN, Fin 12] \<and> present_values [Fin 8, NaN, Fin 12] = [8, 12]
   \<and> series_mean [Fin 8, NaN, Fin 12] = Fin 10"
  using handle_missing_values_mean [of example_missing]
  by (simp add: example_missing_def columns_def handle_missing_values_def bind_e_def
      get_column_def has_null_def impute_numeric_def series_mean_def fillna_floats_def
      fillna_strings_def all_finite_def present_values_def)

section \<open>Preprocessor: fit once, apply many\<close>










subsection \<open>Label encoders\<close>













text \<open>Evaluating the preprocessor on the examples.\<close>

lemmas prep_defs = scale_features_def scale_with_def get_columns_def number_columns_def
  object_columns_def scaler_fit_transform_def scaler_transform_def check_array_def nrows_def
  fit_params_def nan_max_def nan_min_def handle_zero_def apply_params_def set_columns_def
  f_sub_def bind_e_def get_column_def encode_categorical_variables_def le_fit_def le_codes_def
  le_transform_def new_preprocessor_def Let_def




section \<open>Preprocessor: replay on new data\<close>


lemma list_all2_transfer:
  assumes "list_all2 R xs ys" and "list_all P xs" and "\<And>x y. R x y \<Longrightarrow> P x \<Longrightarrow> Q y"
  shows "list_all Q ys"
  using assms by (induction rule: list_all2_induct) auto

lemma list_all2_same:
  assumes "list_all2 R xs ys" and "list_all P xs" and "\<And>x y. R x y \<Longrightarrow> P x \<Longrightarrow> y = x"
  shows "ys = xs"
  using assms by (induction rule: list_all2_induct) auto

lemma impute_mean_number:
  assumes "is_number d" and "impute_step ''mean'' d d = Inr d'"
  shows "is_number d'"
  using assms by (cases d) (auto simp: impute_numeric_def)

lemma handle_missing_numeric:
  assumes num: "list_all (\<lambda>(c, d). is_number d) t" and dist: "distinct (columns t)"
  shows "\<exists>X. handle_missing_values t ''mean'' None = Inr X
           \<and> list_all (\<lambda>(c, d). is_number d) X
           \<and> (list_all (\<lambda>(c, d). \<not> has_null d) t \<longrightarrow> X = t)"
proof -
  have "list_all (\<lambda>x. has_null (snd x)
           \<longrightarrow> (\<exists>d'. impute_step ''mean'' (snd x) (snd x) = Inr d')) t"
    unfolding list_all_iff
  proof (intro ballI impI)
    fix x assume x: "x \<in> set t" and n: "has_null (snd x)"
    then have "is_number (snd x)" using num unfolding list_all_iff by (cases x) auto
    then have "\<not> (is_datetime (snd x) \<and> has_null (snd x))" by (cases "snd x") auto
    then show "\<exists>d'. impute_step ''mean'' (snd x) (snd x) = Inr d'"
      using n by (rule impute_step_mean_ok)
  qed
  then have "\<exists>t'. handle_missing_loop ([] @ t) ''mean'' (map fst t) ([] @ t) = Inr t'"
    using dist by (intro handle_missing_loop_total) (simp_all add: columns_def)
  then obtain X where X: "handle_missing_loop ([] @ t) ''mean'' (map fst t) ([] @ t) = Inr X"
    by blast
  have d0: "distinct (map fst ([] @ t))" using dist by (simp add: columns_def)
  obtain r' where "X = [] @ r'" and
    "list_all2 (\<lambda>x y. fst y = fst x
          \<and> (if has_null (snd x) then impute_step ''mean'' (snd x) (snd x) = Inr (snd y)
              else snd y = snd x)) t r'"
    using handle_missing_loop_rel [OF d0 refl X] by blast
  then have rel: "list_all2 (\<lambda>x y. fst y = fst x
          \<and> (if has_null (snd x) then impute_step ''mean'' (snd x) (snd x) = Inr (snd y)
              else snd y = snd x)) t X"
    by simp
  have a: "handle_missing_values t ''mean'' None = Inr X"
    using X by (simp add: handle_missing_values_def columns_def)
  have b: "list_all (\<lambda>(c, d). is_number d) X"
  proof (rule list_all2_transfer [OF rel num])
    fix x y :: "string \<times> coldata"
    assume r: "fst y = fst x
          \<and> (if has_null (snd x) then impute_step ''mean'' (snd x) (snd x) = Inr (snd y)
              else snd y = snd x)"
      and p: "case x of (c, d) \<Rightarrow> is_number d"
    have "is_number (snd x)" using p by (cases x) simp
    then have "is_number (snd y)"
      using r impute_mean_number [of "snd x" "snd y"] by (cases "has_null (snd x)") auto
    then show "case y of (c, d) \<Rightarrow> is_number d" by (cases y) simp
  qed
  have c: "X = t" if nn: "list_all (\<lambda>(c, d). \<not> has_null d) t"
  proof (rule list_all2_same [OF rel nn])
    fix x y :: "string \<times> coldata"
    assume r: "fst y = fst x
          \<and> (if has_null (snd x) then impute_step ''mean'' (snd x) (snd x) = Inr (snd y)
              else snd y = snd x)"
      and p: "case x of (c, d) \<Rightarrow> \<not> has_null d"
    have "\<not> has_null (snd x)" using p by (cases x) simp
    then show "y = x" using r by (simp add: prod_eq_iff)
  qed
  show ?thesis using a b c by blast
qed

lemma no_object_columns:
  assumes "list_all (\<lambda>(c, d). is_number d) X"
  shows "object_columns X = []"
proof -
  have "filter (\<lambda>(c, d). is_object d) X = []"
    unfolding filter_empty_conv
  proof
    fix x assume "x \<in> set X"
    then have "is_number (snd x)" using assms unfolding list_all_iff by (cases x) auto
    then have "\<not> is_object (snd x)" by (cases "snd x") auto
    then show "\<not> (case x of (c, d) \<Rightarrow> is_object d)" by (cases x) simp
  qed
  then show ?thesis by (simp add: object_columns_def)
qed

lemma reindex_own_columns:
  assumes "distinct (columns t)"
  shows "reindex t (columns t) = t"
proof -
  have "map (\<lambda>c. (c, case map_of t c of Some d \<Rightarrow> d
                       | None \<Rightarrow> IntCol (replicate (nrows t) 0))) (map fst t)
      = map (\<lambda>x. x) t"
    unfolding map_map
  proof (rule map_cong [OF refl])
    fix x assume x: "x \<in> set t"
    obtain c d where cd: "x = (c, d)" by (cases x)
    have "map_of t c = Some d"
      using assms x unfolding columns_def cd by (intro map_of_is_SomeI) simp_all
    then show "((\<lambda>c. (c, case map_of t c of Some d \<Rightarrow> d
                       | None \<Rightarrow> IntCol (replicate (nrows t) 0))) \<circ> fst) x = x"
      by (simp add: cd)
  qed
  then show ?thesis by (simp add: reindex_def columns_def)
qed

text \<open>
  C3, as amended.  On a preprocessor on which nothing has been fitted, \<open>replay\<close> of a
  table whose columns are all numeric and have distinct names is not an error and leaves
  the preprocessor as it is: no scaling and no selection is applied, and the result is
  the imputed table (each missing cell filled with the mean of its column in the new
  table) reindexed to \<open>feature_names\<close>.  When the table has no missing value and
  \<open>feature_names\<close> are its own column names, the result is the input.
\<close>

theorem transform_new_data_unfitted:
  assumes "list_all (\<lambda>(c, d). is_number d) df" and "distinct (columns df)"
  shows "\<exists>X. handle_missing_values df ''mean'' None = Inr X
           \<and> transform_new_data new_preprocessor df feature_columns
               = (new_preprocessor, Inr (reindex X feature_columns))
           \<and> (list_all (\<lambda>(c, d). \<not> has_null d) df
                 \<longrightarrow> X = df
                   \<and> transform_new_data new_preprocessor df (columns df)
                       = (new_preprocessor, Inr df))"
proof -
  obtain X where X: "handle_missing_values df ''mean'' None = Inr X"
    and num: "list_all (\<lambda>(c, d). is_number d) X"
    and same: "list_all (\<lambda>(c, d). \<not> has_null d) df \<longrightarrow> X = df"
    using handle_missing_numeric [OF assms] by blast
  have o: "object_columns X = []" using num by (rule no_object_columns)
  have t: "transform_new_data new_preprocessor df fc
      = (new_preprocessor, Inr (reindex X fc))" for fc
    by (simp add: transform_new_data_def X o new_preprocessor_def)
  have "transform_new_data new_preprocessor df (columns df) = (new_preprocessor, Inr df)"
    if "X = df"
    using t [of "columns df"] that reindex_own_columns [OF assms(2)] by simp
  then show ?thesis using X t same by blast
qed


lemmas replay_defs = transform_new_data_def handle_missing_values_def columns_def bind_e_def
  get_column_def has_null_def impute_numeric_def series_mean_def fillna_floats_def
  fillna_strings_def object_columns_def number_columns_def encode_categorical_variables_def
  le_fit_def le_codes_def new_preprocessor_def reindex_def Let_def

text \<open>
  A numeric table with one missing age comes back with the mean of the two ages present
  in that cell; the price table, which has no missing value, comes back as it is.
\<close>

theorem transform_new_data_unfitted_witness:
  "list_all (\<lambda>(c, d). is_number d) example_numeric \<and> distinct (columns example_numeric)
   \<and> transform_new_data new_preprocessor example_numeric [''age'', ''visits'']
       = (new_preprocessor,
          Inr [(''age'', FloatCol [Fin 50, Fin 60, Fin 70]), (''visits'', IntCol [1, 2, 3])])
   \<and> list_all (\<lambda>(c, d). is_number d) example_ohlcv \<and> distinct (columns example_ohlcv)
   \<and> list_all (\<lambda>(c, d). \<not> has_null d) example_ohlcv
   \<and> transform_new_data new_preprocessor example_ohlcv (columns example_ohlcv)
       = (new_preprocessor, Inr example_ohlcv)"
proof -
  have a: "list_all (\<lambda>(c, d). is_number d) example_numeric"
    and b: "distinct (columns example_numeric)"
    by (simp_all add: example_numeric_def columns_def)
  have c: "list_all (\<lambda>(c, d). is_number d) example_ohlcv"
    and d: "distinct (columns example_ohlcv)"
    and e: "list_all (\<lambda>(c, d). \<not> has_null d) example_ohlcv"
    by (simp_all add: example_ohlcv_def columns_def has_null_def)
  have f: "handle_missing_values example_numeric ''mean'' None
      = Inr [(''age'', FloatCol [Fin 50, Fin 60, Fin 70]), (''visits'', IntCol [1, 2, 3])]"
    by (simp add: example_numeric_def replay_defs)
  have g: "transform_new_data new_preprocessor example_numeric [''age'', ''visits'']
       = (new_preprocessor,
          Inr [(''age'', FloatCol [Fin 50, Fin 60, Fin 70]), (''visits'', IntCol [1, 2, 3])])"
    using transform_new_data_unfitted [OF a b, of "[''age'', ''visits'']"] f
    by (auto simp: reindex_def)
  have h: "transform_new_data new_preprocessor example_ohlcv (columns example_ohlcv)
       = (new_preprocessor, Inr example_ohlcv)"
    using transform_new_data_unfitted [OF c d] e by blast
  show ?thesis using a b c d e g h by blast
qed

text \<open>
  C3, as stated, fails on a table with a missing number and a column of strings: on a
  fresh preprocessor \<open>replay\<close> fills the missing age with 10, fills the missing city
  with \<open>'Unknown'\<close>, fits a new encoder for the column \<open>city\<close>, stores it, and returns
  the codes in place of the strings.
\<close>

theorem transform_new_data_unfitted_changes_input:
  "snd (transform_new_data new_preprocessor example_missing (columns example_missing))
     = Inr [(''age'', FloatCol [Fin 8, Fin 10, Fin 12]),
            (''height'', FloatCol [Fin 150, Fin 160, Fin 170]),
            (''city'', IntCol [0, 2, 1]),
            (''visits'', IntCol [1, 2, 3])]
   \<and> snd (transform_new_data new_preprocessor example_missing (columns example_missing))
       \<noteq> Inr example_missing
   \<and> label_encoders new_preprocessor ''city'' = None
   \<and> label_encoders
        (fst (transform_new_data new_preprocessor example_missing (columns example_missing)))
        ''city''
       = Some (LabelEncoder (Some [Str ''Oslo'', Str ''Rome'', Str ''Unknown'']))"
  by (simp add: example_missing_def replay_defs)

section \<open>Preprocessor: the feature count of the pipeline\<close>


lemma encode_loop_selector:
  "feature_selector (fst (encode_loop self method cols df)) = feature_selector self"
proof (induction cols arbitrary: self df)
  case Nil
  show ?case by simp
next
  case (Cons c cols)
  show ?case
  proof (cases "method = ''label''")
    case lab: True
    show ?thesis
    proof (cases "label_encoders self c")
      case None
      show ?thesis
      proof (cases "get_column df c")
        case (Inl e)
        then show ?thesis using lab None by simp
      next
        case (Inr d)
        have "feature_selector (fst (encode_loop s ''label'' cols t)) = feature_selector s"
          for s t
          using Cons.IH [of s t] lab by simp
        then show ?thesis using lab None Inr by (simp add: Let_def)
      qed
    next
      case (Some enc')
      show ?thesis
      proof (cases "bind_e (get_column df c) (\<lambda>d. le_transform enc' (map Str (astype_str d)))")
        case (Inl e)
        then show ?thesis using lab Some by simp
      next
        case (Inr codes)
        have "feature_selector (fst (encode_loop s ''label'' cols t)) = feature_selector s"
          for s t
          using Cons.IH [of s t] lab by simp
        then show ?thesis using Inr lab Some by simp
      qed
    qed
  next
    case False
    show ?thesis
    proof (cases "method = ''onehot''")
      case True
      show ?thesis
      proof (cases "get_column df c")
        case (Inl e)
        then show ?thesis using False True by simp
      next
        case (Inr d)
        have "feature_selector (fst (encode_loop s ''onehot'' cols t)) = feature_selector s"
          for s t
          using Cons.IH [of s t] True by simp
        then show ?thesis using Inr False True by simp
      qed
    next
      case other: False
      show ?thesis using False other by (simp add: Cons.IH)
    qed
  qed
qed

lemma scale_features_selector:
  "feature_selector (fst (scale_features self df cols m)) = feature_selector self"
  by (auto simp: scale_features_def scale_with_def Let_def split: option.splits sum.splits)

lemma encode_target_selector:
  "feature_selector (fst (encode_target self y tt)) = feature_selector self"
  by (cases y) (auto simp: encode_target_def split: option.splits)

lemma before_selection_selector:
  "feature_selector (fst (preprocess_before_selection self df tc ms em sm tt))
     = feature_selector self"
proof -
  have enc: "feature_selector (fst (if object_columns X1 \<noteq> []
                      then encode_categorical_variables self X1 (Some (object_columns X1)) em
                      else (self, Inr X1))) = feature_selector self" for X1
    by (simp add: encode_categorical_variables_def encode_loop_selector)
  have sc: "feature_selector (fst (if number_columns X2 \<noteq> []
                                then scale_features s2 X2 (Some (number_columns X2)) sm
                                else (s2, Inr X2))) = feature_selector s2" for s2 X2
    by (simp add: scale_features_selector)
  show ?thesis
  proof (cases "get_column df tc")
    case (Inl e)
    then show ?thesis by (simp add: preprocess_before_selection_def)
  next
    case y: (Inr y)
    show ?thesis
    proof (cases "handle_missing_values (drop_columns df [tc]) ms None")
      case (Inl e)
      then show ?thesis using y by (simp add: preprocess_before_selection_def)
    next
      case X1: (Inr X1)
      obtain s1 r1 where e1: "(if object_columns X1 \<noteq> []
                      then encode_categorical_variables self X1 (Some (object_columns X1)) em
                      else (self, Inr X1)) = (s1, r1)" by fastforce
      have f1: "feature_selector s1 = feature_selector self" using enc [of X1] e1 by simp
      show ?thesis
      proof (cases r1)
        case (Inl e)
        then show ?thesis using y X1 e1 f1 by (simp add: preprocess_before_selection_def)
      next
        case X2: (Inr X2)
        obtain s2 r2 where e2: "encode_target s1 y tt = (s2, r2)" by fastforce
        have f2: "feature_selector s2 = feature_selector s1"
          using encode_target_selector [of s1 y tt] e2 by simp
        show ?thesis
        proof (cases r2)
          case (Inl e)
          then show ?thesis using y X1 e1 X2 e2 f1 f2
            by (simp add: preprocess_before_selection_def)
        next
          case y1: (Inr y1)
          obtain s3 r3 where e3: "(if number_columns X2 \<noteq> []
                                then scale_features s2 X2 (Some (number_columns X2)) sm
                                else (s2, Inr X2)) = (s3, r3)" by fastforce
          have f3: "feature_selector s3 = feature_selector s2" using sc [of X2 s2] e3 by simp
          show ?thesis using y X1 e1 X2 e2 y1 e3 f1 f2 f3
            by (cases r3) (simp_all add: preprocess_before_selection_def)
        qed
      qed
    qed
  qed
qed

text \<open>
  C4, as amended.  When the requested feature count \<open>k\<close> is at least the number of
  feature columns that reach the selection step, \<open>run_pipeline\<close> reports no error on
  that account and selects nothing: the features and the preprocessor are those that
  imputation, encoding and scaling produced, with every column kept and the selector of
  the preprocessor as it was, and the whole pipeline returns what it returns with the
  feature selection switched off.
\<close>

theorem feature_selection_skipped:
  assumes "preprocess_before_selection self df target_column missing_strategy
             encoding_method scaling_method task_type = (self', Inr (X, y))"
    and "length X \<le> k"
  shows "preprocess_features self df target_column missing_strategy encoding_method
           scaling_method (Some k) task_type = (self', Inr (X, y))
       \<and> feature_selector self' = feature_selector self
       \<and> preprocess_pipeline self df target_column test_size missing_strategy
           encoding_method scaling_method (Some k) task_type
         = preprocess_pipeline self df target_column test_size missing_strategy
             encoding_method scaling_method None task_type"
proof -
  have a: "preprocess_features self df target_column missing_strategy encoding_method
           scaling_method (Some k) task_type = (self', Inr (X, y))"
    using assms by (simp add: preprocess_features_def)
  have b: "preprocess_features self df target_column missing_strategy encoding_method
           scaling_method None task_type = (self', Inr (X, y))"
    using assms by (simp add: preprocess_features_def)
  have c: "feature_selector self' = feature_selector self"
    using before_selection_selector [of self df target_column missing_strategy
        encoding_method scaling_method task_type] assms(1) by simp
  show ?thesis using a b c by (simp add: preprocess_pipeline_def)
qed

lemmas pipeline_defs = preprocess_features_def preprocess_before_selection_def
  handle_missing_values_def drop_columns_def columns_def has_null_def object_columns_def
  number_columns_def encode_categorical_variables_def encode_target_def le_fit_def
  le_codes_def prep_defs

lemma example_before_selection:
  "preprocess_before_selection new_preprocessor example_train ''label'' ''mean'' ''label''
     ''minmax'' ''classification''
   = (new_preprocessor
        \<lparr>label_encoders := (\<lambda>c. None)(''city'' \<mapsto> LabelEncoder (Some [Str ''Oslo'', Str ''Rome''])),
         scaler := Some (Scaler MinMax (Some ([''age'', ''income'', ''city''],
           [(Fin (- 1), Fin (1 / 20)), (Fin (- (1 / 2)), Fin (1 / 200)), (Fin 0, Fin 1)]))),
         target_encoder := Some (LabelEncoder (Some [Str ''no'', Str ''yes'']))\<rparr>,
      Inr ([(''age'', FloatCol [Fin 0, Fin 1, Fin (1 / 2)]),
            (''income'', FloatCol [Fin 0, Fin 1, Fin (1 / 2)]),
            (''city'', FloatCol [Fin 0, Fin 1, Fin 0])],
           IntCol [1, 0, 1]))"
  by (simp add: pipeline_defs example_train_def)


text \<open>
  The training table has three feature columns; with \<open>k = 3\<close> all three come back,
  scaled, and no selector is stored.
\<close>

theorem feature_selection_skipped_witness:
  "length [(''age'', FloatCol [Fin 0, Fin 1, Fin (1 / 2)]),
           (''income'', FloatCol [Fin 0, Fin 1, Fin (1 / 2)]),
           (''city'', FloatCol [Fin 0, Fin 1, Fin 0])] \<le> (3::nat)
   \<and> snd (preprocess_features new_preprocessor example_train ''label'' ''mean'' ''label''
        ''minmax'' (Some 3) ''classification'')
       = Inr ([(''age'', FloatCol [Fin 0, Fin 1, Fin (1 / 2)]),
               (''income'', FloatCol [Fin 0, Fin 1, Fin (1 / 2)]),
               (''city'', FloatCol [Fin 0, Fin 1, Fin 0])],
              IntCol [1, 0, 1])
   \<and> feature_selector (fst (preprocess_features new_preprocessor example_train ''label''
        ''mean'' ''label'' ''minmax'' (Some 3) ''classification'')) = None"
proof -
  have l: "length [(''age'', FloatCol [Fin 0, Fin 1, Fin (1 / 2)]),
           (''income'', FloatCol [Fin 0, Fin 1, Fin (1 / 2)]),
           (''city'', FloatCol [Fin 0, Fin 1, Fin 0])] \<le> (3::nat)" by simp
  show ?thesis
    using feature_selection_skipped [OF example_before_selection l, of "1 / 5"] l
    by (simp add: new_preprocessor_def)
qed

text \<open>
  C4, as stated, fails: with three feature columns and \<open>k = 5\<close> the pipeline reaches
  the split without an error, with all three columns and without a selector; it skips the
  selection silently.
\<close>

theorem feature_selection_no_error:
  "snd (preprocess_features new_preprocessor example_train ''label'' ''mean'' ''label''
        ''minmax'' (Some 5) ''classification'')
       = Inr ([(''age'', FloatCol [Fin 0, Fin 1, Fin (1 / 2)]),
               (''income'', FloatCol [Fin 0, Fin 1, Fin (1 / 2)]),
               (''city'', FloatCol [Fin 0, Fin 1, Fin 0])],
              IntCol [1, 0, 1])
   \<and> feature_selector (fst (preprocess_features new_preprocessor example_train ''label''
        ''mean'' ''label'' ''minmax'' (Some 5) ''classification'')) = None
   \<and> preprocess_pipeline new_preprocessor example_train ''label'' (1 / 5) ''mean'' ''label''
        ''minmax'' (Some 5) ''classification''
       = preprocess_pipeline new_preprocessor example_train ''label'' (1 / 5) ''mean''
           ''label'' ''minmax'' None ''classification''"
proof -
  have a: "preprocess_features new_preprocessor example_train ''label'' ''mean'' ''label''
        ''minmax'' (Some 5) ''classification''
     = preprocess_before_selection new_preprocessor example_train ''label'' ''mean''
         ''label'' ''minmax'' ''classification''"
    by (simp add: preprocess_features_def example_before_selection)
  have b: "preprocess_features new_preprocessor example_train ''label'' ''mean'' ''label''
        ''minmax'' None ''classification''
     = preprocess_before_selection new_preprocessor example_train ''label'' ''mean''
         ''label'' ''minmax'' ''classification''"
    by (simp add: preprocess_features_def example_before_selection)
  have c: "preprocess_pipeline new_preprocessor example_train ''label'' (1 / 5) ''mean''
        ''label'' ''minmax'' (Some 5) ''classification''
       = preprocess_pipeline new_preprocessor example_train ''label'' (1 / 5) ''mean''
           ''label'' ''minmax'' None ''classification''"
    unfolding preprocess_pipeline_def a b by (rule refl)
  show ?thesis
    unfolding c a example_before_selection by (simp add: new_preprocessor_def)
qed

section \<open>Frame effect of the transformations\<close>

subsection \<open>The store\<close>

lemma preserves_refl: "preserves h h"
  by (simp add: preserves_def)

lemma preserves_trans:
  assumes "preserves h1 h2" and "preserves h2 h3"
  shows "preserves h1 h3"
  using assms by (auto simp: preserves_def)

lemma preserves_frame:
  assumes "preserves h h'" and "a < lim h"
  shows "frames h' a = frames h a"
  using assms by (simp add: preserves_def)

lemma preserves_lim:
  assumes "preserves h h'"
  shows "lim h \<le> lim h'"
  using assms by (simp add: preserves_def)

lemma alloc_facts:
  assumes "alloc t h = (r, h')"
  shows "r = lim h" and "lim h' = Suc (lim h)" and "frames h' r = t" and "preserves h h'"
  using assms by (auto simp: alloc_def preserves_def)

lemma frame_copy_facts:
  assumes "frame_copy a h = (r, h')"
  shows "r = lim h" and "lim h' = Suc (lim h)" and "frames h' r = frames h a"
    and "preserves h h'"
  using assms alloc_facts [of "frames h a" h r h'] by (simp_all add: frame_copy_def)

lemma frame_put_preserves:
  assumes "preserves h0 h" and "lim h0 \<le> a"
  shows "preserves h0 (frame_put a t h)"
  using assms by (auto simp: preserves_def frame_put_def)

lemma frame_put_facts:
  "lim (frame_put a t h) = lim h" "frames (frame_put a t h) a = t"
  "b \<noteq> a \<Longrightarrow> frames (frame_put a t h) b = frames h b"
  by (simp_all add: frame_put_def)

lemma run_in_place_preserves:
  assumes "preserves h0 h" and "lim h0 \<le> a"
  shows "preserves h0 (snd (run_in_place ss a h))"
  using assms
proof (induction ss arbitrary: h)
  case Nil
  then show ?case by simp
next
  case (Cons s ss)
  show ?case
  proof (cases "s (frames h a)")
    case (Inl e)
    then show ?thesis using Cons.prems by simp
  next
    case (Inr t)
    have "preserves h0 (frame_put a t h)" using Cons.prems by (rule frame_put_preserves)
    then have "preserves h0 (snd (run_in_place ss a (frame_put a t h)))"
      using Cons.prems(2) by (rule Cons.IH)
    then show ?thesis using Inr by simp
  qed
qed

lemma run_in_place_lim: "lim (snd (run_in_place ss a h)) = lim h"
proof (induction ss arbitrary: h)
  case Nil
  show ?case by simp
next
  case (Cons s ss)
  show ?case
    by (cases "s (frames h a)") (simp_all add: Cons.IH frame_put_facts)
qed

lemma run_in_place_value:
  "(fst (run_in_place ss a h) = None
      \<longrightarrow> run_stmts ss (frames h a) = Inr (frames (snd (run_in_place ss a h)) a))
   \<and> (\<forall>e. fst (run_in_place ss a h) = Some e \<longrightarrow> run_stmts ss (frames h a) = Inl e)"
proof (induction ss arbitrary: h)
  case Nil
  show ?case by simp
next
  case (Cons s ss)
  show ?case
  proof (cases "s (frames h a)")
    case (Inl e)
    then show ?thesis by (simp add: bind_e_def)
  next
    case (Inr t)
    have "frames (frame_put a t h) a = t" by (simp add: frame_put_facts)
    then show ?thesis using Inr Cons.IH [of "frame_put a t h"] by (simp add: bind_e_def)
  qed
qed

lemma run_in_place_ok:
  assumes "run_in_place ss a h = (None, h')"
  shows "run_stmts ss (frames h a) = Inr (frames h' a)"
  using run_in_place_value [where ss = ss and a = a and h = h] assms by simp

lemma run_in_place_error:
  assumes "run_in_place ss a h = (Some e, h')"
  shows "run_stmts ss (frames h a) = Inl e"
  using run_in_place_value [where ss = ss and a = a and h = h] assms by simp

lemma run_stmts_append:
  "run_stmts (ss @ ts) x = bind_e (run_stmts ss x) (run_stmts ts)"
proof (induction ss arbitrary: x)
  case Nil
  show ?case by (simp add: bind_e_def)
next
  case (Cons s ss)
  show ?case by (cases "s x") (simp_all add: bind_e_def Cons.IH)
qed

lemma add_technical_indicators_obj_spec:
  assumes "data < lim h" and "add_technical_indicators_obj data h = (r, h')"
  shows "preserves h h'" and "r = data \<or> r = lim h" and "r < lim h'"
    and "frames h' r = add_technical_indicators (frames h data)"
    and "if add_technical_indicators_raises (frames h data) then r = data else lim h \<le> r"
proof -
  obtain df h1 where c: "frame_copy data h = (df, h1)" by fastforce
  note cf = frame_copy_facts [OF c]
  obtain res h2 where run: "run_in_place add_technical_indicators_stmts df h1 = (res, h2)"
    by fastforce
  have p2: "preserves h h2"
    using run_in_place_preserves [OF cf(4), of df add_technical_indicators_stmts] cf(1) run
    by simp
  have l2: "lim h2 = Suc (lim h)"
    using run_in_place_lim [of add_technical_indicators_stmts df h1] run cf(2) by simp
  have "preserves h h' \<and> (r = data \<or> r = lim h) \<and> r < lim h'
      \<and> frames h' r = add_technical_indicators (frames h data)
      \<and> (if add_technical_indicators_raises (frames h data) then r = data else lim h \<le> r)"
  proof (cases res)
    case None
    then have rh: "r = df" "h' = h2"
      using assms(2) c run by (simp_all add: add_technical_indicators_obj_def)
    have ok: "run_stmts add_technical_indicators_stmts (frames h data) = Inr (frames h2 df)"
      using run_in_place_ok [of add_technical_indicators_stmts df h1 h2] run None cf(3)
      by simp
    then have "add_technical_indicators (frames h data) = frames h2 df"
      by (simp add: add_technical_indicators_def)
    moreover have "\<not> add_technical_indicators_raises (frames h data)"
      using ok by (simp add: add_technical_indicators_raises_def raises_def)
    ultimately show ?thesis using rh p2 l2 cf(1) by simp
  next
    case (Some e)
    then have rh: "r = data" "h' = h2"
      using assms(2) c run by (simp_all add: add_technical_indicators_obj_def)
    have err: "run_stmts add_technical_indicators_stmts (frames h data) = Inl e"
      using run_in_place_error [of add_technical_indicators_stmts df h1 e h2] run Some cf(3)
      by simp
    then have "add_technical_indicators (frames h data) = frames h data"
      by (simp add: add_technical_indicators_def)
    moreover have "frames h2 data = frames h data"
      using p2 assms(1) by (rule preserves_frame)
    moreover have "add_technical_indicators_raises (frames h data)"
      using err by (simp add: add_technical_indicators_raises_def raises_def)
    ultimately show ?thesis using rh p2 l2 assms(1) by simp
  qed
  then show "preserves h h'" and "r = data \<or> r = lim h" and "r < lim h'"
    and "frames h' r = add_technical_indicators (frames h data)"
    and "if add_technical_indicators_raises (frames h data) then r = data else lim h \<le> r"
    by blast+
qed


lemma target_tail:
  assumes p: "preserves h h2" and fresh: "lim h \<le> df'" "df' < lim h2"
    and d: "data < lim h"
    and res: "(case run_in_place stmts df' h2 of
                 (Some e, h3) \<Rightarrow> (data, h3)
               | (None, h3) \<Rightarrow>
                   (case dropna_subset (frames h3 df') ''Target'' of
                      Inl e \<Rightarrow> (data, h3)
                    | Inr t \<Rightarrow> alloc t h3)) = (r, h')"
  shows "preserves h h' \<and> (r = data \<or> lim h \<le> r) \<and> r < lim h'
      \<and> frames h' r = (case run_stmts (stmts @ [\<lambda>df. dropna_subset df ''Target''])
                             (frames h2 df') of
                          Inl e \<Rightarrow> frames h data
                        | Inr t \<Rightarrow> t)
      \<and> (if raises (run_stmts (stmts @ [\<lambda>df. dropna_subset df ''Target''])
                      (frames h2 df'))
          then r = data else lim h \<le> r)"
proof -
  obtain o3 h3 where run: "run_in_place stmts df' h2 = (o3, h3)" by fastforce
  have p3: "preserves h h3"
    using run_in_place_preserves [OF p fresh(1), of stmts] run by simp
  have l3: "lim h3 = lim h2" using run_in_place_lim [of stmts df' h2] run by simp
  have dl: "data < lim h3" using d preserves_lim [OF p3] by simp
  have same: "frames h3 data = frames h data" using p3 d by (rule preserves_frame)
  show ?thesis
  proof (cases o3)
    case (Some e)
    then have rh: "r = data" "h' = h3" using res run by simp_all
    have "run_stmts stmts (frames h2 df') = Inl e"
      using run Some by (intro run_in_place_error) simp
    then show ?thesis
      using rh p3 dl same by (simp add: run_stmts_append bind_e_def raises_def)
  next
    case None
    have ok: "run_stmts stmts (frames h2 df') = Inr (frames h3 df')"
      using run None by (intro run_in_place_ok) simp
    show ?thesis
    proof (cases "dropna_subset (frames h3 df') ''Target''")
      case (Inl e)
      then have rh: "r = data" "h' = h3" using res run None by simp_all
      show ?thesis
        using rh p3 dl same ok Inl by (simp add: run_stmts_append bind_e_def raises_def)
    next
      case (Inr t)
      then have al: "alloc t h3 = (r, h')" using res run None by simp
      note af = alloc_facts [OF al]
      have "preserves h h'" using p3 af(4) by (rule preserves_trans)
      moreover have "lim h \<le> r" using af(1) preserves_lim [OF p3] by simp
      moreover have "r < lim h'" using af(1,2) by simp
      ultimately show ?thesis
        using af(3) ok Inr by (simp add: run_stmts_append bind_e_def raises_def)
    qed
  qed
qed

lemma create_classification_target_obj_spec:
  assumes "data < lim h" and "create_classification_target_obj data method periods h = (r, h')"
  shows "preserves h h'" and "r = data \<or> lim h \<le> r" and "r < lim h'"
    and "frames h' r = create_classification_target (frames h data) method periods"
    and "if create_classification_target_raises (frames h data) method periods
         then r = data else lim h \<le> r"
proof -
  obtain df h1 where c: "frame_copy data h = (df, h1)" by fastforce
  note cf = frame_copy_facts [OF c]
  obtain df' h2 where i: "(if method = ''volatility_breakout''
      then add_technical_indicators_obj df h1 else (df, h1)) = (df', h2)" by fastforce
  have mid: "preserves h h2 \<and> lim h \<le> df' \<and> df' < lim h2
      \<and> frames h2 df' = (if method = ''volatility_breakout''
                            then add_technical_indicators (frames h data) else frames h data)"
  proof (cases "method = ''volatility_breakout''")
    case True
    then have a: "add_technical_indicators_obj df h1 = (df', h2)" using i by simp
    have dl: "df < lim h1" using cf(1,2) by simp
    note s = add_technical_indicators_obj_spec [OF dl a]
    have "preserves h h2" using cf(4) s(1) by (rule preserves_trans)
    moreover have "lim h \<le> df'" using s(2) cf(1,2) by auto
    ultimately show ?thesis using s(3,4) cf(3) True by simp
  next
    case False
    then have "df' = df" "h2 = h1" using i by simp_all
    then show ?thesis using cf False by simp
  qed
  have res: "(case run_in_place (classification_target_stmts method periods) df' h2 of
                 (Some e, h3) \<Rightarrow> (data, h3)
               | (None, h3) \<Rightarrow>
                   (case dropna_subset (frames h3 df') ''Target'' of
                      Inl e \<Rightarrow> (data, h3)
                    | Inr t \<Rightarrow> alloc t h3)) = (r, h')"
    using assms(2) c i by (simp add: create_classification_target_obj_def)
  have "preserves h h' \<and> (r = data \<or> lim h \<le> r) \<and> r < lim h'
      \<and> frames h' r = (case run_stmts (classification_target_stmts method periods
                               @ [\<lambda>df. dropna_subset df ''Target'']) (frames h2 df') of
                          Inl e \<Rightarrow> frames h data
                        | Inr t \<Rightarrow> t)
      \<and> (if raises (run_stmts (classification_target_stmts method periods
                               @ [\<lambda>df. dropna_subset df ''Target'']) (frames h2 df'))
          then r = data else lim h \<le> r)"
    using mid assms(1) res by (intro target_tail) simp_all
  then show "preserves h h'" and "r = data \<or> lim h \<le> r" and "r < lim h'"
    and "frames h' r = create_classification_target (frames h data) method periods"
    and "if create_classification_target_raises (frames h data) method periods
         then r = data else lim h \<le> r"
    using mid
    by (simp_all add: create_classification_target_def
        create_classification_target_raises_def)
qed

lemma create_regression_target_obj_spec:
  assumes "data < lim h" and "create_regression_target_obj data target_type periods h = (r, h')"
  shows "preserves h h'" and "r = data \<or> lim h \<le> r" and "r < lim h'"
    and "frames h' r = create_regression_target (frames h data) target_type periods"
    and "if create_regression_target_raises (frames h data) target_type periods
         then r = data else lim h \<le> r"
proof -
  obtain df h1 where c: "frame_copy data h = (df, h1)" by fastforce
  note cf = frame_copy_facts [OF c]
  have res: "(case run_in_place (regression_target_stmts target_type periods) df h1 of
                 (Some e, h3) \<Rightarrow> (data, h3)
               | (None, h3) \<Rightarrow>
                   (case dropna_subset (frames h3 df) ''Target'' of
                      Inl e \<Rightarrow> (data, h3)
                    | Inr t \<Rightarrow> alloc t h3)) = (r, h')"
    using assms(2) c by (simp add: create_regression_target_obj_def)
  have "preserves h h' \<and> (r = data \<or> lim h \<le> r) \<and> r < lim h'
      \<and> frames h' r = (case run_stmts (regression_target_stmts target_type periods
                               @ [\<lambda>df. dropna_subset df ''Target'']) (frames h1 df) of
                          Inl e \<Rightarrow> frames h data
                        | Inr t \<Rightarrow> t)
      \<and> (if raises (run_stmts (regression_target_stmts target_type periods
                               @ [\<lambda>df. dropna_subset df ''Target'']) (frames h1 df))
          then r = data else lim h \<le> r)"
    using cf assms(1) res by (intro target_tail) simp_all
  then show "preserves h h'" and "r = data \<or> lim h \<le> r" and "r < lim h'"
    and "frames h' r = create_regression_target (frames h data) target_type periods"
    and "if create_regression_target_raises (frames h data) target_type periods
         then r = data else lim h \<le> r"
    using cf(3)
    by (simp_all add: create_regression_target_def create_regression_target_raises_def)
qed


lemma prepare_ml_dataset_obj_spec:
  assumes "data < lim h"
    and "prepare_ml_dataset_obj data task_type target_method periods inc h = (r, h')"
  shows "preserves h h'" and "r = data \<or> lim h \<le> r" and "r < lim h'"
    and "frames h' r = prepare_ml_dataset (frames h data) task_type target_method periods inc"
    and "if prepare_ml_dataset_raises (frames h data) task_type target_method periods inc
         then r = data else lim h \<le> r"
proof -
  obtain df h1 where c: "frame_copy data h = (df, h1)" by fastforce
  note cf = frame_copy_facts [OF c]
  obtain df1 h2 where i: "(if inc then add_technical_indicators_obj df h1 else (df, h1))
      = (df1, h2)" by fastforce
  define T1 where "T1 = (if inc then add_technical_indicators (frames h data)
                         else frames h data)"
  have mid1: "preserves h h2 \<and> lim h \<le> df1 \<and> df1 < lim h2 \<and> frames h2 df1 = T1"
  proof (cases inc)
    case True
    then have a: "add_technical_indicators_obj df h1 = (df1, h2)" using i by simp
    have dl: "df < lim h1" using cf(1,2) by simp
    note s = add_technical_indicators_obj_spec [OF dl a]
    have "preserves h h2" using cf(4) s(1) by (rule preserves_trans)
    moreover have "lim h \<le> df1" using s(2) cf(1,2) by auto
    ultimately show ?thesis using s(3,4) cf(3) True by (simp add: T1_def)
  next
    case False
    then have "df1 = df" "h2 = h1" using i by simp_all
    then show ?thesis using cf False by (simp add: T1_def)
  qed
  obtain df2 h3 where t: "(if task_type = ''classification''
      then create_classification_target_obj df1 target_method periods h2
      else create_regression_target_obj df1 target_method periods h2) = (df2, h3)"
    by fastforce
  define T2 where "T2 = (if task_type = ''classification''
      then create_classification_target T1 target_method periods
      else create_regression_target T1 target_method periods)"
  have d1: "df1 < lim h2" using mid1 by simp
  have mid2: "preserves h h3 \<and> lim h \<le> df2 \<and> df2 < lim h3 \<and> frames h3 df2 = T2"
  proof (cases "task_type = ''classification''")
    case True
    then have a: "create_classification_target_obj df1 target_method periods h2 = (df2, h3)"
      using t by simp
    note s = create_classification_target_obj_spec [OF d1 a]
    have "preserves h h3" using mid1 s(1) preserves_trans by blast
    moreover have "lim h \<le> df2" using s(2) mid1 preserves_lim [of h h2] by auto
    ultimately show ?thesis using s(3,4) mid1 True by (simp add: T2_def)
  next
    case False
    then have a: "create_regression_target_obj df1 target_method periods h2 = (df2, h3)"
      using t by simp
    note s = create_regression_target_obj_spec [OF d1 a]
    have "preserves h h3" using mid1 s(1) preserves_trans by blast
    moreover have "lim h \<le> df2" using s(2) mid1 preserves_lim [of h h2] by auto
    ultimately show ?thesis using s(3,4) mid1 False by (simp add: T2_def)
  qed
  obtain o4 h4 where run: "run_in_place (date_stmts T2) df2 h3 = (o4, h4)" by fastforce
  have p3: "preserves h h3" and f2: "lim h \<le> df2" and T2f: "frames h3 df2 = T2"
    using mid2 by simp_all
  have p4: "preserves h h4"
    using run_in_place_preserves [OF p3 f2, of "date_stmts T2"] run by simp
  have pure: "prepare_ml_dataset (frames h data) task_type target_method periods inc
      = (case run_stmts (date_stmts T2) T2 of
           Inl e \<Rightarrow> frames h data
         | Inr df3 \<Rightarrow> dropna (drop_columns df3
               (columns_to_drop (''Date'' \<in> set (columns T2)) df3)))"
    by (simp only: prepare_ml_dataset_def T1_def T2_def Let_def)
  have rz: "prepare_ml_dataset_raises (frames h data) task_type target_method periods inc
      = raises (run_stmts (date_stmts T2) T2)"
    by (simp only: prepare_ml_dataset_raises_def T1_def T2_def Let_def)
  have "preserves h h' \<and> (r = data \<or> lim h \<le> r) \<and> r < lim h'
      \<and> frames h' r = prepare_ml_dataset (frames h data) task_type target_method periods inc
      \<and> (if prepare_ml_dataset_raises (frames h data) task_type target_method periods inc
          then r = data else lim h \<le> r)"
  proof (cases o4)
    case (Some e)
    then have rh: "r = data" "h' = h4"
      using assms(2) c i t run T2f by (simp_all add: prepare_ml_dataset_obj_def)
    have "run_stmts (date_stmts T2) T2 = Inl e"
      using run_in_place_error [of "date_stmts T2" df2 h3 e h4] run Some T2f by simp
    moreover have "frames h4 data = frames h data" using p4 assms(1) by (rule preserves_frame)
    moreover have "data < lim h4" using assms(1) preserves_lim [OF p4] by simp
    ultimately show ?thesis using rh p4 pure rz by (simp add: raises_def)
  next
    case None
    have ok: "run_stmts (date_stmts T2) T2 = Inr (frames h4 df2)"
      using run_in_place_ok [of "date_stmts T2" df2 h3 h4] run None T2f by simp
    obtain df3 h5 where a1: "alloc (drop_columns (frames h4 df2)
        (columns_to_drop (''Date'' \<in> set (columns T2)) (frames h4 df2))) h4 = (df3, h5)"
      by fastforce
    note a1f = alloc_facts [OF a1]
    have a2: "alloc (dropna (frames h5 df3)) h5 = (r, h')"
      using assms(2) c i t run None T2f a1 by (simp add: prepare_ml_dataset_obj_def)
    note a2f = alloc_facts [OF a2]
    have "preserves h h5" using p4 a1f(4) by (rule preserves_trans)
    then have "preserves h h'" using a2f(4) by (rule preserves_trans)
    moreover have "lim h \<le> r"
      using a2f(1) a1f(2) preserves_lim [OF p4] by simp
    moreover have "r < lim h'" using a2f(1,2) by simp
    ultimately show ?thesis using pure ok a1f(3) a2f(3) rz by (simp add: raises_def)
  qed
  then show "preserves h h'" and "r = data \<or> lim h \<le> r" and "r < lim h'"
    and "frames h' r = prepare_ml_dataset (frames h data) task_type target_method periods inc"
    and "if prepare_ml_dataset_raises (frames h data) task_type target_method periods inc
         then r = data else lim h \<le> r"
    by blast+
qed


subsection \<open>The preprocessing methods on objects\<close>

text \<open>
  The loops write to the copy only, whose address is not in use before the call; the
  frame they return holds the value that the method computes on the value of its
  argument.
\<close>

lemma handle_missing_loop_obj_spec:
  assumes "preserves h0 h" and "lim h0 \<le> df_copy" and "df < lim h0"
    and "handle_missing_loop_obj df strategy cols df_copy h = (res, h')"
  shows "preserves h0 h' \<and> lim h' = lim h
      \<and> (case res of
            Inl e \<Rightarrow> handle_missing_loop (frames h df) strategy cols (frames h df_copy) = Inl e
          | Inr r \<Rightarrow> r = df_copy
              \<and> handle_missing_loop (frames h df) strategy cols (frames h df_copy)
                  = Inr (frames h' r))"
  using assms
proof (induction cols arbitrary: h)
  case Nil
  then show ?case by auto
next
  case (Cons col cols)
  have ne: "df \<noteq> df_copy" using Cons.prems(2,3) by simp
  show ?case
  proof (cases "get_column (frames h df) col")
    case (Inl e)
    then show ?thesis using Cons.prems by (auto simp: bind_e_def)
  next
    case (Inr d)
    show ?thesis
    proof (cases "has_null d")
      case False
      then show ?thesis
        using Cons.IH [of h] Cons.prems Inr by (auto simp: bind_e_def split: sum.splits)
    next
      case True
      show ?thesis
      proof (cases "bind_e (get_column (frames h df_copy) col) (impute_step strategy d)")
        case (Inl e)
        then show ?thesis
          using Cons.prems Inr True by (auto simp: bind_e_def split: sum.splits)
      next
        case r: (Inr dc')
        define h1 where "h1 = frame_put df_copy (set_column (frames h df_copy) col dc') h"
        have p1: "preserves h0 h1"
          unfolding h1_def using Cons.prems(1,2) by (rule frame_put_preserves)
        have f1: "frames h1 df = frames h df"
          "frames h1 df_copy = set_column (frames h df_copy) col dc'" "lim h1 = lim h"
          using ne by (simp_all add: h1_def frame_put_facts)
        have call: "handle_missing_loop_obj df strategy cols df_copy h1 = (res, h')"
          using Cons.prems(4) Inr True r by (simp add: h1_def)
        note ih = Cons.IH [OF p1 Cons.prems(2,3) call]
        have pure: "handle_missing_loop (frames h df) strategy (col # cols) (frames h df_copy)
            = handle_missing_loop (frames h df) strategy cols
                (set_column (frames h df_copy) col dc')"
          using Inr True r by (auto simp: bind_e_def split: sum.splits)
        show ?thesis using ih unfolding pure f1 by (auto split: sum.splits)
      qed
    qed
  qed
qed

lemma handle_missing_values_obj_spec:
  assumes "df < lim h" and "handle_missing_values_obj df strategy cols h = (res, h')"
  shows "preserves h h'"
    and "case res of
           Inl e \<Rightarrow> handle_missing_values (frames h df) strategy cols = Inl e
         | Inr r \<Rightarrow> lim h \<le> r \<and> r < lim h'
             \<and> handle_missing_values (frames h df) strategy cols = Inr (frames h' r)"
proof -
  obtain c h1 where c: "frame_copy df h = (c, h1)" by fastforce
  note cf = frame_copy_facts [OF c]
  define cs where "cs = (case cols of None \<Rightarrow> columns (frames h df) | Some cs \<Rightarrow> cs)"
  have call: "handle_missing_loop_obj df strategy cs c h1 = (res, h')"
    using assms(2) c by (simp add: handle_missing_values_obj_def cs_def)
  have same: "frames h1 df = frames h df"
    using cf(4) assms(1) by (rule preserves_frame)
  have "lim h \<le> c" using cf(1) by simp
  note sp = handle_missing_loop_obj_spec [OF cf(4) this assms(1) call]
  show "preserves h h'" using sp by blast
  show "case res of
           Inl e \<Rightarrow> handle_missing_values (frames h df) strategy cols = Inl e
         | Inr r \<Rightarrow> lim h \<le> r \<and> r < lim h'
             \<and> handle_missing_values (frames h df) strategy cols = Inr (frames h' r)"
    using sp cf(1,2,3) same
    by (auto simp: handle_missing_values_def cs_def split: sum.splits)
qed

lemma encode_loop_obj_spec:
  assumes "preserves h0 h" and "lim h0 \<le> df_copy" and "df_copy < lim h"
    and "encode_loop_obj self method cols df_copy h = (self', res, h')"
  shows "preserves h0 h' \<and> lim h \<le> lim h'
      \<and> (case res of
            Inl e \<Rightarrow> encode_loop self method cols (frames h df_copy) = (self', Inl e)
          | Inr r \<Rightarrow> lim h0 \<le> r \<and> r < lim h'
              \<and> encode_loop self method cols (frames h df_copy) = (self', Inr (frames h' r)))"
  using assms
proof (induction cols arbitrary: self h df_copy)
  case Nil
  then show ?case by auto
next
  case (Cons col cols)
  have put: "preserves h0 h' \<and> lim h \<le> lim h'
      \<and> (case res of
            Inl e \<Rightarrow> encode_loop s method cols t = (self', Inl e)
          | Inr r \<Rightarrow> lim h0 \<le> r \<and> r < lim h'
              \<and> encode_loop s method cols t = (self', Inr (frames h' r)))"
    if "encode_loop_obj s method cols df_copy (frame_put df_copy t h) = (self', res, h')"
    for s t
  proof -
    have "preserves h0 (frame_put df_copy t h)"
      using Cons.prems(1,2) by (rule frame_put_preserves)
    moreover have "df_copy < lim (frame_put df_copy t h)"
      using Cons.prems(3) by (simp add: frame_put_facts)
    ultimately show ?thesis
      using Cons.IH [of "frame_put df_copy t h" df_copy s] Cons.prems(2) that
      by (auto simp: frame_put_facts split: sum.splits)
  qed
  consider (label) "method = ''label''"
    | (onehot) "method \<noteq> ''label''" "method = ''onehot''"
    | (other) "method \<noteq> ''label''" "method \<noteq> ''onehot''"
    by blast
  then show ?case
  proof cases
    case label
    show ?thesis
    proof (cases "label_encoders self col")
      case None
      show ?thesis
      proof (cases "get_column (frames h df_copy) col")
        case (Inl e)
        then show ?thesis using Cons.prems label None by auto
      next
        case (Inr d)
        then show ?thesis
          using Cons.prems(4) label None
            put [of "self\<lparr>label_encoders := (label_encoders self)
                       (col \<mapsto> LabelEncoder (Some (le_fit (map Str (astype_str d)))))\<rparr>"
                 "set_column (frames h df_copy) col
                    (IntCol (le_codes (le_fit (map Str (astype_str d)))
                       (map Str (astype_str d))))"]
          by (auto simp: Let_def split: sum.splits)
      qed
    next
      case (Some enc)
      show ?thesis
      proof (cases "bind_e (get_column (frames h df_copy) col)
                     (\<lambda>d. le_transform enc (map Str (astype_str d)))")
        case (Inl e)
        then show ?thesis using Cons.prems label Some by auto
      next
        case (Inr codes)
        then show ?thesis
          using Cons.prems(4) label Some
            put [of self "set_column (frames h df_copy) col (IntCol codes)"]
          by (auto split: sum.splits)
      qed
    qed
  next
    case onehot
    show ?thesis
    proof (cases "get_column (frames h df_copy) col")
      case (Inl e)
      then show ?thesis using Cons.prems onehot by auto
    next
      case (Inr d)
      define t where "t = drop_columns (frames h df_copy) [col] @ get_dummies col d"
      obtain c h1 where a: "alloc t h = (c, h1)" by fastforce
      note af = alloc_facts [OF a]
      have p1: "preserves h0 h1" using Cons.prems(1) af(4) by (rule preserves_trans)
      have l1: "lim h0 \<le> c" "c < lim h1"
        using af(1,2) Cons.prems(2,3) by simp_all
      have call: "encode_loop_obj self method cols c h1 = (self', res, h')"
        using Cons.prems(4) onehot Inr a by (simp add: t_def)
      note ih = Cons.IH [OF p1 l1 call]
      have "encode_loop self method (col # cols) (frames h df_copy)
          = encode_loop self method cols t"
        using onehot Inr by (simp add: t_def)
      then show ?thesis using ih af(2,3) by (auto split: sum.splits)
    qed
  next
    case other
    then show ?thesis
      using Cons.IH [OF Cons.prems(1,2,3)] Cons.prems(4) by (auto split: sum.splits)
  qed
qed

lemma encode_categorical_variables_obj_spec:
  assumes "df < lim h"
    and "encode_categorical_variables_obj self df cols method h = (self', res, h')"
  shows "preserves h h'"
    and "case res of
           Inl e \<Rightarrow> encode_categorical_variables self (frames h df) cols method = (self', Inl e)
         | Inr r \<Rightarrow> lim h \<le> r \<and> r < lim h'
             \<and> encode_categorical_variables self (frames h df) cols method
                 = (self', Inr (frames h' r))"
proof -
  obtain c h1 where c: "frame_copy df h = (c, h1)" by fastforce
  note cf = frame_copy_facts [OF c]
  define cs where "cs = (case cols of None \<Rightarrow> object_columns (frames h df) | Some cs \<Rightarrow> cs)"
  have call: "encode_loop_obj self method cs c h1 = (self', res, h')"
    using assms(2) c by (simp add: encode_categorical_variables_obj_def cs_def)
  have "lim h \<le> c" "c < lim h1" using cf(1,2) by simp_all
  note sp = encode_loop_obj_spec [OF cf(4) this call]
  show "preserves h h'" using sp by blast
  show "case res of
           Inl e \<Rightarrow> encode_categorical_variables self (frames h df) cols method = (self', Inl e)
         | Inr r \<Rightarrow> lim h \<le> r \<and> r < lim h'
             \<and> encode_categorical_variables self (frames h df) cols method
                 = (self', Inr (frames h' r))"
    using sp cf(3)
    by (auto simp: encode_categorical_variables_def cs_def split: sum.splits)
qed

lemma scale_features_obj_spec:
  assumes "df < lim h"
    and "scale_features_obj self df cols method h = (self', res, h')"
  shows "preserves h h'"
    and "case res of
           Inl e \<Rightarrow> scale_features self (frames h df) cols method = (self', Inl e)
         | Inr r \<Rightarrow> lim h \<le> r \<and> r < lim h'
             \<and> scale_features self (frames h df) cols method = (self', Inr (frames h' r))"
proof -
  obtain c h1 where c: "frame_copy df h = (c, h1)" by fastforce
  note cf = frame_copy_facts [OF c]
  obtain s out where sc: "scale_features self (frames h df) cols method = (s, out)"
    by fastforce
  have "preserves h h'
      \<and> (case res of
           Inl e \<Rightarrow> scale_features self (frames h df) cols method = (self', Inl e)
         | Inr r \<Rightarrow> lim h \<le> r \<and> r < lim h'
             \<and> scale_features self (frames h df) cols method = (self', Inr (frames h' r)))"
  proof (cases out)
    case (Inl e)
    then show ?thesis
      using assms(2) c cf sc by (auto simp: scale_features_obj_def)
  next
    case (Inr t)
    have "preserves h (frame_put c t h1)"
      using cf(4) cf(1) by (intro frame_put_preserves) simp_all
    then show ?thesis
      using assms(2) c cf sc Inr by (auto simp: scale_features_obj_def frame_put_facts)
  qed
  then show "preserves h h'"
    and "case res of
           Inl e \<Rightarrow> scale_features self (frames h df) cols method = (self', Inl e)
         | Inr r \<Rightarrow> lim h \<le> r \<and> r < lim h'
             \<and> scale_features self (frames h df) cols method = (self', Inr (frames h' r))"
    by blast+
qed

subsection \<open>The input of a transformation\<close>

text \<open>
  C9, as amended.  Called on a frame \<open>data\<close> of the store, every transformation of the
  preprocessor (\<open>handle_missing_values\<close>, \<open>encode_categorical_variables\<close>,
  \<open>scale_features\<close>) and of the feature builder (\<open>add_technical_indicators\<close>,
  \<open>create_classification_target\<close>, \<open>create_regression_target\<close>, \<open>prepare_ml_dataset\<close>)
  leaves every frame that was in use before the call as it was, the frame of the caller
  among them, and the frame that it returns holds the value that the method computes
  from the value of the argument.  A method of the preprocessor that returns, returns a
  frame that the call allocated.  A method of the feature builder returns a frame that
  the call allocated when its \<open>try\<close> block does not raise, and the frame \<open>data\<close> of the
  caller itself, unchanged, when it does.
\<close>

theorem transformations_leave_input_unchanged:
  assumes "data < lim h"
  shows
    "(case handle_missing_values_obj data strategy icols h of
        (res, h') \<Rightarrow>
          preserves h h'
          \<and> (case res of
                Inl e \<Rightarrow> handle_missing_values (frames h data) strategy icols = Inl e
              | Inr r \<Rightarrow> new_frame h h' r
                  \<and> handle_missing_values (frames h data) strategy icols
                      = Inr (frames h' r)))
     \<and> (case encode_categorical_variables_obj self data ecols emethod h of
          (self', res, h') \<Rightarrow>
            preserves h h'
            \<and> (case res of
                  Inl e \<Rightarrow> encode_categorical_variables self (frames h data) ecols emethod
                      = (self', Inl e)
                | Inr r \<Rightarrow> new_frame h h' r
                    \<and> encode_categorical_variables self (frames h data) ecols emethod
                        = (self', Inr (frames h' r))))
     \<and> (case scale_features_obj self data scols smethod h of
          (self', res, h') \<Rightarrow>
            preserves h h'
            \<and> (case res of
                  Inl e \<Rightarrow> scale_features self (frames h data) scols smethod = (self', Inl e)
                | Inr r \<Rightarrow> new_frame h h' r
                    \<and> scale_features self (frames h data) scols smethod
                        = (self', Inr (frames h' r))))
     \<and> (case add_technical_indicators_obj data h of
          (r, h') \<Rightarrow>
            preserves h h'
            \<and> frames h' r = add_technical_indicators (frames h data)
            \<and> (if add_technical_indicators_raises (frames h data) then r = data
                else new_frame h h' r))
     \<and> (case create_classification_target_obj data cmethod cperiods h of
          (r, h') \<Rightarrow>
            preserves h h'
            \<and> frames h' r = create_classification_target (frames h data) cmethod cperiods
            \<and> (if create_classification_target_raises (frames h data) cmethod cperiods
                then r = data else new_frame h h' r))
     \<and> (case create_regression_target_obj data target_type rperiods h of
          (r, h') \<Rightarrow>
            preserves h h'
            \<and> frames h' r = create_regression_target (frames h data) target_type rperiods
            \<and> (if create_regression_target_raises (frames h data) target_type rperiods
                then r = data else new_frame h h' r))
     \<and> (case prepare_ml_dataset_obj data task_type target_method periods
                include_technical_indicators h of
          (r, h') \<Rightarrow>
            preserves h h'
            \<and> frames h' r = prepare_ml_dataset (frames h data) task_type target_method periods
                               include_technical_indicators
            \<and> (if prepare_ml_dataset_raises (frames h data) task_type target_method periods
                     include_technical_indicators
                then r = data else new_frame h h' r))"
proof -
  have impute: "case handle_missing_values_obj data strategy icols h of
        (res, h') \<Rightarrow>
          preserves h h'
          \<and> (case res of
                Inl e \<Rightarrow> handle_missing_values (frames h data) strategy icols = Inl e
              | Inr r \<Rightarrow> new_frame h h' r
                  \<and> handle_missing_values (frames h data) strategy icols
                      = Inr (frames h' r))"
  proof -
    obtain res h' where c: "handle_missing_values_obj data strategy icols h = (res, h')"
      by fastforce
    show ?thesis
      using handle_missing_values_obj_spec [OF assms c]
      by (auto simp: c new_frame_def split: sum.splits)
  qed
  have encode: "case encode_categorical_variables_obj self data ecols emethod h of
          (self', res, h') \<Rightarrow>
            preserves h h'
            \<and> (case res of
                  Inl e \<Rightarrow> encode_categorical_variables self (frames h data) ecols emethod
                      = (self', Inl e)
                | Inr r \<Rightarrow> new_frame h h' r
                    \<and> encode_categorical_variables self (frames h data) ecols emethod
                        = (self', Inr (frames h' r)))"
  proof -
    obtain self' res h' where
      c: "encode_categorical_variables_obj self data ecols emethod h = (self', res, h')"
      using prod_cases3 by blast
    show ?thesis
      using encode_categorical_variables_obj_spec [OF assms c]
      by (auto simp: c new_frame_def split: sum.splits)
  qed
  have scale: "case scale_features_obj self data scols smethod h of
          (self', res, h') \<Rightarrow>
            preserves h h'
            \<and> (case res of
                  Inl e \<Rightarrow> scale_features self (frames h data) scols smethod = (self', Inl e)
                | Inr r \<Rightarrow> new_frame h h' r
                    \<and> scale_features self (frames h data) scols smethod
                        = (self', Inr (frames h' r)))"
  proof -
    obtain self' res h' where
      c: "scale_features_obj self data scols smethod h = (self', res, h')"
      using prod_cases3 by blast
    show ?thesis
      using scale_features_obj_spec [OF assms c]
      by (auto simp: c new_frame_def split: sum.splits)
  qed
  have indicators: "case add_technical_indicators_obj data h of
          (r, h') \<Rightarrow>
            preserves h h'
            \<and> frames h' r = add_technical_indicators (frames h data)
            \<and> (if add_technical_indicators_raises (frames h data) then r = data
                else new_frame h h' r)"
  proof -
    obtain r h' where c: "add_technical_indicators_obj data h = (r, h')" by fastforce
    show ?thesis
      using add_technical_indicators_obj_spec [OF assms c]
      by (auto simp: c new_frame_def split: if_splits)
  qed
  have classification: "case create_classification_target_obj data cmethod cperiods h of
          (r, h') \<Rightarrow>
            preserves h h'
            \<and> frames h' r = create_classification_target (frames h data) cmethod cperiods
            \<and> (if create_classification_target_raises (frames h data) cmethod cperiods
                then r = data else new_frame h h' r)"
  proof -
    obtain r h' where c: "create_classification_target_obj data cmethod cperiods h = (r, h')"
      by fastforce
    show ?thesis
      using create_classification_target_obj_spec [OF assms c]
      by (auto simp: c new_frame_def split: if_splits)
  qed
  have regression: "case create_regression_target_obj data target_type rperiods h of
          (r, h') \<Rightarrow>
            preserves h h'
            \<and> frames h' r = create_regression_target (frames h data) target_type rperiods
            \<and> (if create_regression_target_raises (frames h data) target_type rperiods
                then r = data else new_frame h h' r)"
  proof -
    obtain r h' where c: "create_regression_target_obj data target_type rperiods h = (r, h')"
      by fastforce
    show ?thesis
      using create_regression_target_obj_spec [OF assms c]
      by (auto simp: c new_frame_def split: if_splits)
  qed
  have dataset: "case prepare_ml_dataset_obj data task_type target_method periods
                include_technical_indicators h of
          (r, h') \<Rightarrow>
            preserves h h'
            \<and> frames h' r = prepare_ml_dataset (frames h data) task_type target_method periods
                               include_technical_indicators
            \<and> (if prepare_ml_dataset_raises (frames h data) task_type target_method periods
                     include_technical_indicators
                then r = data else new_frame h h' r)"
  proof -
    obtain r h' where c: "prepare_ml_dataset_obj data task_type target_method periods
                include_technical_indicators h = (r, h')"
      by fastforce
    show ?thesis
      using prepare_ml_dataset_obj_spec [OF assms c]
      by (auto simp: c new_frame_def split: if_splits)
  qed
  from impute encode scale indicators classification regression dataset
  show ?thesis by (intro conjI)
qed

text \<open>
  The price table at address 0 of the example store: \<open>create_classification_target\<close>
  leaves it as it was and returns a frame allocated by the call, with the targets
  1, 0, 1, 0.
\<close>

theorem transformations_leave_input_unchanged_witness:
  "(0::nat) < lim example_store
   \<and> frames (snd (create_classification_target_obj 0 ''price_direction'' 1 example_store)) 0
       = example_daily
   \<and> new_frame example_store
       (snd (create_classification_target_obj 0 ''price_direction'' 1 example_store))
       (fst (create_classification_target_obj 0 ''price_direction'' 1 example_store))
   \<and> frames (snd (create_classification_target_obj 0 ''price_direction'' 1 example_store))
         (fst (create_classification_target_obj 0 ''price_direction'' 1 example_store))
       = example_daily @ [(''Target'', IntCol [1, 0, 1, 0])]"
proof -
  have l: "(0::nat) < lim example_store" by (simp add: example_store_def)
  have f: "frames example_store 0 = example_daily" by (simp add: example_store_def)
  have v: "create_classification_target example_daily ''price_direction'' 1
      = example_daily @ [(''Target'', IntCol [1, 0, 1, 0])]"
    unfolding create_classification_target_def classification_target_stmts_def
      example_daily_def example_ohlcv_def example_stamps_def price_direction_target_def
    by (simp add: stmt_defs upt_rec)
  have nr: "\<not> create_classification_target_raises example_daily ''price_direction'' 1"
    unfolding create_classification_target_raises_def classification_target_stmts_def
      example_daily_def example_ohlcv_def example_stamps_def price_direction_target_def raises_def
    by (simp add: stmt_defs upt_rec)
  obtain r h' where
    c: "create_classification_target_obj 0 ''price_direction'' 1 example_store = (r, h')"
    by fastforce
  have "preserves example_store h'
      \<and> frames h' r = create_classification_target example_daily ''price_direction'' 1
      \<and> new_frame example_store h' r"
  proof -
    have "case create_classification_target_obj 0 ''price_direction'' 1 example_store of
          (r, h') \<Rightarrow>
            preserves example_store h'
            \<and> frames h' r = create_classification_target (frames example_store 0)
                  ''price_direction'' 1
            \<and> (if create_classification_target_raises (frames example_store 0)
                  ''price_direction'' 1
                then r = 0 else new_frame example_store h' r)"
      by (rule transformations_leave_input_unchanged
            [OF l, THEN conjunct2, THEN conjunct2, THEN conjunct2, THEN conjunct2,
             THEN conjunct1])
    then show ?thesis unfolding c f using nr by simp
  qed
  moreover from this have "frames h' 0 = frames example_store 0"
    using l by (simp add: preserves_def)
  ultimately show ?thesis using c f v l by simp
qed

text \<open>
  C9, as stated, fails: the table at address 1 of the example store has no column
  \<open>Close\<close>, the first statement of \<open>add_technical_indicators\<close> raises, and the method
  returns address 1, the table of the caller, which was in use before the call.
\<close>

theorem returns_caller_table_after_exception:
  "fst (add_technical_indicators_obj 1 example_store) = 1 \<and> 1 < lim example_store"
  by (simp add: add_technical_indicators_obj_def frame_copy_def alloc_def
      add_technical_indicators_stmts_def example_store_def example_missing_def stmt_defs)
end
